theory Spec2Isabelle
  imports Main "HOL-Library.Multiset"
begin

section \<open>Go library functions the adapters call\<close>

text \<open>
  Go strings are byte sequences; they are modelled as \<open>string\<close> (a list of 8-bit
  characters).  An \<open>error\<close> value is modelled by its message (what \<open>err.Error()\<close>
  returns); Go's \<open>nil\<close> error is \<open>None\<close>.
\<close>

type_synonym error = string

subsection \<open>unicode.IsSpace, strings.TrimSpace, strings.Split, strings.Fields\<close>

text \<open>
  \<open>space_runes\<close> lists the UTF-8 encodings of the code points for which Go's
  \<open>unicode.IsSpace\<close> holds: U+0009..U+000D, U+0020, U+0085, U+00A0, U+1680,
  U+2000..U+200A, U+2028, U+2029, U+202F, U+205F, U+3000.  No encoding is a proper
  prefix or suffix of another, and a continuation byte never starts one, so looking for
  one of them at the head (or the tail) of a byte string is the same as decoding the
  first (or last) rune and asking \<open>unicode.IsSpace\<close>.
\<close>

definition space_runes :: "string list" where
  "space_runes =
     [[CHR 0x09], [CHR 0x0A], [CHR 0x0B], [CHR 0x0C], [CHR 0x0D], [CHR 0x20],
      [CHR 0xC2, CHR 0x85], [CHR 0xC2, CHR 0xA0],
      [CHR 0xE1, CHR 0x9A, CHR 0x80],
      [CHR 0xE2, CHR 0x80, CHR 0x80], [CHR 0xE2, CHR 0x80, CHR 0x81],
      [CHR 0xE2, CHR 0x80, CHR 0x82], [CHR 0xE2, CHR 0x80, CHR 0x83],
      [CHR 0xE2, CHR 0x80, CHR 0x84], [CHR 0xE2, CHR 0x80, CHR 0x85],
      [CHR 0xE2, CHR 0x80, CHR 0x86], [CHR 0xE2, CHR 0x80, CHR 0x87],
      [CHR 0xE2, CHR 0x80, CHR 0x88], [CHR 0xE2, CHR 0x80, CHR 0x89],
      [CHR 0xE2, CHR 0x80, CHR 0x8A],
      [CHR 0xE2, CHR 0x80, CHR 0xA8], [CHR 0xE2, CHR 0x80, CHR 0xA9],
      [CHR 0xE2, CHR 0x80, CHR 0xAF], [CHR 0xE2, CHR 0x81, CHR 0x9F],
      [CHR 0xE3, CHR 0x80, CHR 0x80]]"

text \<open>The number of bytes of the white-space rune a string starts with; 0 when it starts
  with none.\<close>

definition leading_space :: "string \<Rightarrow> nat" where
  "leading_space s =
     (case find (\<lambda>p. take (length p) s = p) space_runes of
        None \<Rightarrow> 0 | Some p \<Rightarrow> length p)"

definition trailing_space :: "string \<Rightarrow> nat" where
  "trailing_space s =
     (case find (\<lambda>p. length p \<le> length s \<and> drop (length s - length p) s = p) space_runes of
        None \<Rightarrow> 0 | Some p \<Rightarrow> length p)"

lemma leading_space_le: "leading_space s \<le> length s"
proof (cases "find (\<lambda>p. take (length p) s = p) space_runes")
  case None
  then show ?thesis by (simp add: leading_space_def)
next
  case (Some p)
  then have "take (length p) s = p"
    by (auto simp: find_Some_iff)
  then have "length p \<le> length s"
    by (metis length_take min.cobounded1)
  with Some show ?thesis by (simp add: leading_space_def)
qed

lemma trailing_space_le: "trailing_space s \<le> length s"
  by (auto simp: trailing_space_def find_Some_iff split: option.splits)

function TrimLeft :: "string \<Rightarrow> string" where
  "TrimLeft s = (if leading_space s = 0 then s else TrimLeft (drop (leading_space s) s))"
  by pat_completeness auto
termination
proof (relation "measure length")
  show "wf (measure length)" by simp
next
  fix s :: string
  assume "leading_space s \<noteq> 0"
  moreover have "leading_space s \<le> length s" by (rule leading_space_le)
  ultimately show "(drop (leading_space s) s, s) \<in> measure length" by simp
qed

function TrimRight :: "string \<Rightarrow> string" where
  "TrimRight s =
     (if trailing_space s = 0 then s else TrimRight (take (length s - trailing_space s) s))"
  by pat_completeness auto
termination
proof (relation "measure length")
  show "wf (measure length)" by simp
next
  fix s :: string
  assume "trailing_space s \<noteq> 0"
  moreover have "trailing_space s \<le> length s" by (rule trailing_space_le)
  ultimately show "(take (length s - trailing_space s) s, s) \<in> measure length" by simp
qed

declare TrimLeft.simps [simp del] TrimRight.simps [simp del]

text \<open>\<open>strings.TrimSpace(s)\<close>: \<open>s\<close> without its leading and trailing white space.\<close>

definition TrimSpace :: "string \<Rightarrow> string" where
  "TrimSpace s = TrimRight (TrimLeft s)"

text \<open>
  \<open>strings.Split(s, sep)\<close> for a one-byte separator (the adapters only split at
  \<open>"\n"\<close>): the pieces between the separators, the empty ones too, so the result
  is never empty and \<open>Split "" sep = [""]\<close>.
\<close>

fun Split :: "string \<Rightarrow> char \<Rightarrow> string list" where
  "Split [] sep = [[]]"
| "Split (c # s) sep =
     (if c = sep then [] # Split s sep
      else (case Split s sep of [] \<Rightarrow> [[c]] | p # ps \<Rightarrow> (c # p) # ps))"

text \<open>
  \<open>strings.Fields(s)\<close>: the maximal runs of non-space bytes of \<open>s\<close>, in order;
  \<open>fields_from cur s\<close> carries the field collected so far.
\<close>

function fields_from :: "string \<Rightarrow> string \<Rightarrow> string list" where
  "fields_from cur [] = (if cur = [] then [] else [cur])"
| "fields_from cur (c # s) =
     (if leading_space (c # s) = 0 then fields_from (cur @ [c]) s
      else (if cur = [] then [] else [cur]) @ fields_from [] (drop (leading_space (c # s)) (c # s)))"
  by pat_completeness auto
termination
proof (relation "measure (\<lambda>(cur, s). length s)")
  show "wf (measure (\<lambda>(cur, s). length s))" by simp
next
  fix cur :: string and c s
  show "((cur @ [c], s), (cur, c # s)) \<in> measure (\<lambda>(cur, s). length s)" by simp
next
  fix cur :: string and c s
  assume "leading_space (c # s) \<noteq> 0"
  then show "(([], drop (leading_space (c # s)) (c # s)), (cur, c # s))
      \<in> measure (\<lambda>(cur, s). length s)"
    by simp
qed

definition Fields :: "string \<Rightarrow> string list" where
  "Fields s = fields_from [] s"

subsection \<open>regexp: the port pattern and MatchString\<close>

text \<open>
  Both adapters compile the pattern \<^verbatim>\<open>^(\d+(-\d+)?)(,\d+(-\d+)?)*$\<close> and call
  \<open>MatchString\<close>.  In Go's syntax \<^verbatim>\<open>\d\<close> is an ASCII digit, and without the
  multi-line flag \<^verbatim>\<open>^\<close> and \<^verbatim>\<open>$\<close> match only at the two ends of the text, so
  the unanchored search of \<open>MatchString\<close> succeeds exactly when the whole string
  matches the pattern between the anchors.  \<open>regexp\<close> is the syntax of such patterns,
  \<open>MatchString\<close> decides a whole-string match by derivatives, and \<open>lang\<close> is the
  set of strings a pattern denotes.
\<close>

datatype regexp = Never | Empty | Lit char | Digit
  | Cat regexp regexp | Alt regexp regexp | Star regexp

definition is_digit :: "char \<Rightarrow> bool" where
  "is_digit c = (c \<in> set ''0123456789'')"

fun nullable :: "regexp \<Rightarrow> bool" where
  "nullable Never = False"
| "nullable Empty = True"
| "nullable (Lit c) = False"
| "nullable Digit = False"
| "nullable (Cat r s) = (nullable r \<and> nullable s)"
| "nullable (Alt r s) = (nullable r \<or> nullable s)"
| "nullable (Star r) = True"

fun deriv :: "char \<Rightarrow> regexp \<Rightarrow> regexp" where
  "deriv c Never = Never"
| "deriv c Empty = Never"
| "deriv c (Lit d) = (if c = d then Empty else Never)"
| "deriv c Digit = (if is_digit c then Empty else Never)"
| "deriv c (Cat r s) =
     (if nullable r then Alt (Cat (deriv c r) s) (deriv c s) else Cat (deriv c r) s)"
| "deriv c (Alt r s) = Alt (deriv c r) (deriv c s)"
| "deriv c (Star r) = Cat (deriv c r) (Star r)"

definition MatchString :: "regexp \<Rightarrow> string \<Rightarrow> bool" where
  "MatchString r s = nullable (foldl (\<lambda>r c. deriv c r) r s)"

definition port_number :: regexp where
  "port_number = Cat Digit (Star Digit)"

definition port_range :: regexp where
  "port_range = Cat port_number (Alt (Cat (Lit CHR ''-'') port_number) Empty)"

definition portRegex :: regexp where
  "portRegex = Cat port_range (Star (Cat (Lit CHR '','') port_range))"

inductive_set star :: "string set \<Rightarrow> string set" for A :: "string set" where
  star_nil: "[] \<in> star A"
| star_app: "u \<in> A \<Longrightarrow> v \<in> star A \<Longrightarrow> u @ v \<in> star A"

fun lang :: "regexp \<Rightarrow> string set" where
  "lang Never = {}"
| "lang Empty = {[]}"
| "lang (Lit c) = {[c]}"
| "lang Digit = {[c] |c. is_digit c}"
| "lang (Cat r s) = {u @ v |u v. u \<in> lang r \<and> v \<in> lang s}"
| "lang (Alt r s) = lang r \<union> lang s"
| "lang (Star r) = star (lang r)"

lemma star_cons_split:
  assumes "x \<in> star A" and "x = c # w"
  shows "\<exists>u v. w = u @ v \<and> c # u \<in> A \<and> v \<in> star A"
  using assms
proof (induction arbitrary: w rule: star.induct)
  case star_nil
  then show ?case by simp
next
  case (star_app u v)
  show ?case
  proof (cases u)
    case Nil
    with star_app show ?thesis by simp
  next
    case (Cons d u')
    with star_app.prems have "d = c" and "w = u' @ v" by simp_all
    with Cons star_app.hyps show ?thesis by blast
  qed
qed

lemma star_cons_iff:
  "c # w \<in> star A \<longleftrightarrow> (\<exists>u v. w = u @ v \<and> c # u \<in> A \<and> v \<in> star A)"
proof
  assume "c # w \<in> star A"
  then show "\<exists>u v. w = u @ v \<and> c # u \<in> A \<and> v \<in> star A"
    by (rule star_cons_split) simp
next
  assume "\<exists>u v. w = u @ v \<and> c # u \<in> A \<and> v \<in> star A"
  then obtain u v where "w = u @ v" "c # u \<in> A" "v \<in> star A" by blast
  then have "(c # u) @ v \<in> star A" by (intro star_app)
  with \<open>w = u @ v\<close> show "c # w \<in> star A" by simp
qed

lemma nullable_lang: "nullable r \<longleftrightarrow> [] \<in> lang r"
proof (induction r)
  case (Star r)
  show ?case by (simp add: star_nil)
qed simp_all

lemma lang_Cat_I: "u \<in> lang r \<Longrightarrow> v \<in> lang s \<Longrightarrow> u @ v \<in> lang (Cat r s)"
  by auto

lemma lang_Cat_E: "w \<in> lang (Cat r s) \<Longrightarrow> \<exists>u v. w = u @ v \<and> u \<in> lang r \<and> v \<in> lang s"
  by auto

lemma cons_in_Cat:
  "c # w \<in> lang (Cat r s) \<longleftrightarrow>
     (\<exists>u v. w = u @ v \<and> c # u \<in> lang r \<and> v \<in> lang s) \<or> ([] \<in> lang r \<and> c # w \<in> lang s)"
  (is "?L \<longleftrightarrow> ?R")
proof
  assume ?L
  then obtain u v where uv: "c # w = u @ v" "u \<in> lang r" "v \<in> lang s"
    using lang_Cat_E by blast
  show ?R
  proof (cases u)
    case Nil
    with uv show ?thesis by simp
  next
    case (Cons d u')
    with uv have "w = u' @ v" "c # u' \<in> lang r" by simp_all
    with uv(3) show ?thesis by blast
  qed
next
  assume ?R
  then show ?L
  proof
    assume "\<exists>u v. w = u @ v \<and> c # u \<in> lang r \<and> v \<in> lang s"
    then obtain u v where "w = u @ v" "c # u \<in> lang r" "v \<in> lang s" by blast
    then show ?L using lang_Cat_I [of "c # u" r v s] by simp
  next
    assume "[] \<in> lang r \<and> c # w \<in> lang s"
    then show ?L using lang_Cat_I [of "[]" r "c # w" s] by simp
  qed
qed

lemma in_Cat_iff: "w \<in> lang (Cat r s) \<longleftrightarrow> (\<exists>u v. w = u @ v \<and> u \<in> lang r \<and> v \<in> lang s)"
  by auto

lemma deriv_lang: "w \<in> lang (deriv c r) \<longleftrightarrow> c # w \<in> lang r"
proof (induction r arbitrary: w)
  case (Cat r s)
  show ?case
    unfolding cons_in_Cat
    by (simp only: deriv.simps in_Cat_iff lang.simps(6) Un_iff Cat nullable_lang split: if_split) blast
next
  case (Star r)
  show ?case
    unfolding star_cons_iff lang.simps(7) deriv.simps in_Cat_iff
    by (simp only: Star lang.simps(7))
qed simp_all

lemma MatchString_lang: "MatchString r s \<longleftrightarrow> s \<in> lang r"
  unfolding MatchString_def
  by (induction s arbitrary: r) (simp_all add: nullable_lang deriv_lang)

text \<open>
  The port grammar in the specification's words: comma-separated items, each a
  non-empty run of digits optionally followed by a hyphen and a non-empty run of digits.
\<close>

definition digits :: "string \<Rightarrow> bool" where
  "digits s = (s \<noteq> [] \<and> list_all is_digit s)"

definition port_item :: "string \<Rightarrow> bool" where
  "port_item i =
     (case Split i (CHR ''-'') of
        [a] \<Rightarrow> digits a
      | [a, b] \<Rightarrow> digits a \<and> digits b
      | _ \<Rightarrow> False)"

definition port_spec_grammar :: "string \<Rightarrow> bool" where
  "port_spec_grammar s = list_all port_item (Split s (CHR '',''))"

lemma Split_not_Nil: "Split s sep \<noteq> []"
  by (induction s) (auto split: list.splits)

lemma Split_no_sep: "sep \<notin> set s \<Longrightarrow> Split s sep = [s]"
  by (induction s) auto

lemma Split_append_sep: "sep \<notin> set u \<Longrightarrow> Split (u @ sep # v) sep = u # Split v sep"
  by (induction u) auto

lemma Split_Cons_decomp:
  "Split s sep = p # ps \<Longrightarrow>
     sep \<notin> set p \<and> (if ps = [] then s = p else \<exists>t. s = p @ sep # t \<and> Split t sep = ps)"
proof (induction s arbitrary: p ps)
  case Nil
  then show ?case by simp
next
  case (Cons c s)
  show ?case
  proof (cases "c = sep")
    case True
    with Cons.prems have "p = []" "ps = Split s sep" by simp_all
    with True show ?thesis by (simp add: Split_not_Nil)
  next
    case False
    obtain q qs where q: "Split s sep = q # qs"
      using Split_not_Nil [of s sep] by (cases "Split s sep") auto
    with False Cons.prems have p: "p = c # q" "ps = qs" by simp_all
    from Cons.IH [OF q] have
      "sep \<notin> set q \<and> (if qs = [] then s = q else \<exists>t. s = q @ sep # t \<and> Split t sep = qs)" .
    with p False show ?thesis by auto
  qed
qed

lemma star_Digit: "w \<in> star (lang Digit) \<longleftrightarrow> list_all is_digit w"
proof
  assume "w \<in> star (lang Digit)"
  then show "list_all is_digit w"
    by (induction rule: star.induct) auto
next
  assume "list_all is_digit w"
  then show "w \<in> star (lang Digit)"
  proof (induction w)
    case Nil
    show ?case by (rule star_nil)
  next
    case (Cons c w)
    then have "[c] \<in> lang Digit" "w \<in> star (lang Digit)" by simp_all
    then have "[c] @ w \<in> star (lang Digit)" by (rule star_app)
    then show ?case by simp
  qed
qed

lemma lang_port_number: "w \<in> lang port_number \<longleftrightarrow> digits w"
proof
  assume "w \<in> lang port_number"
  then obtain u v where "w = u @ v" "u \<in> lang Digit" "v \<in> star (lang Digit)"
    unfolding port_number_def in_Cat_iff lang.simps(7) by blast
  moreover from this obtain c where "u = [c]" "is_digit c" by auto
  moreover from \<open>v \<in> star (lang Digit)\<close> have "list_all is_digit v"
    by (simp only: star_Digit)
  ultimately show "digits w"
    by (simp add: digits_def)
next
  assume "digits w"
  then obtain c v where w: "w = c # v" "is_digit c" "list_all is_digit v"
    unfolding digits_def by (cases w) auto
  then have "[c] \<in> lang Digit" by simp
  moreover from w(3) have "v \<in> lang (Star Digit)"
    by (simp only: lang.simps(7) star_Digit)
  ultimately have "[c] @ v \<in> lang (Cat Digit (Star Digit))" by (rule lang_Cat_I)
  with w(1) show "w \<in> lang port_number" by (simp add: port_number_def)
qed

lemma not_digit_sep: "\<not> is_digit (CHR ''-'')" "\<not> is_digit (CHR '','')"
  by (simp_all add: is_digit_def)

lemma digits_no_hyphen: "digits a \<Longrightarrow> CHR ''-'' \<notin> set a"
  unfolding digits_def list_all_iff using not_digit_sep(1) by blast

lemma digits_no_comma: "digits a \<Longrightarrow> CHR '','' \<notin> set a"
  unfolding digits_def list_all_iff using not_digit_sep(2) by blast

lemma port_item_iff:
  "port_item i \<longleftrightarrow> digits i \<or> (\<exists>a b. i = a @ CHR ''-'' # b \<and> digits a \<and> digits b)"
  (is "?L \<longleftrightarrow> ?R")
proof
  assume L: ?L
  obtain p ps where sp: "Split i (CHR ''-'') = p # ps"
    using Split_not_Nil [of i "CHR ''-''"] by (cases "Split i (CHR ''-'')") auto
  note d = Split_Cons_decomp [OF sp]
  show ?R
  proof (cases ps)
    case Nil
    with L sp d show ?thesis by (simp add: port_item_def)
  next
    case (Cons q qs)
    with L sp have qs: "qs = []" and dg: "digits p" "digits q"
      by (auto simp: port_item_def split: list.splits)
    from d Cons obtain t where t: "i = p @ CHR ''-'' # t" "Split t (CHR ''-'') = q # qs" by auto
    from Split_Cons_decomp [OF t(2)] qs have "t = q" by simp
    with t dg show ?thesis by blast
  qed
next
  assume ?R
  then show ?L
  proof
    assume "digits i"
    then show ?L by (simp add: port_item_def Split_no_sep digits_no_hyphen)
  next
    assume "\<exists>a b. i = a @ CHR ''-'' # b \<and> digits a \<and> digits b"
    then obtain a b where "i = a @ CHR ''-'' # b" "digits a" "digits b" by blast
    then show ?L
      by (simp add: port_item_def Split_append_sep Split_no_sep digits_no_hyphen)
  qed
qed

lemma lang_hyphen_number:
  "v \<in> lang (Alt (Cat (Lit CHR ''-'') port_number) Empty) \<longleftrightarrow>
     v = [] \<or> (\<exists>b. v = CHR ''-'' # b \<and> digits b)"
proof -
  have "v \<in> lang (Cat (Lit CHR ''-'') port_number) \<longleftrightarrow> (\<exists>b. v = CHR ''-'' # b \<and> digits b)"
    unfolding in_Cat_iff by (auto simp: lang_port_number)
  then show ?thesis by auto
qed

lemma lang_port_range: "w \<in> lang port_range \<longleftrightarrow> port_item w"
proof -
  have "w \<in> lang port_range \<longleftrightarrow>
      (\<exists>u v. w = u @ v \<and> digits u \<and> (v = [] \<or> (\<exists>b. v = CHR ''-'' # b \<and> digits b)))"
    unfolding port_range_def in_Cat_iff lang_hyphen_number lang_port_number ..
  also have "\<dots> \<longleftrightarrow> digits w \<or> (\<exists>a b. w = a @ CHR ''-'' # b \<and> digits a \<and> digits b)"
    by auto
  finally show ?thesis unfolding port_item_iff .
qed

lemma port_item_no_comma:
  assumes "port_item i"
  shows "CHR '','' \<notin> set i"
proof -
  from assms consider "digits i"
    | a b where "i = a @ CHR ''-'' # b" "digits a" "digits b"
    unfolding port_item_iff by blast
  then show ?thesis
  proof cases
    case 1
    then show ?thesis by (rule digits_no_comma)
  next
    case 2
    with digits_no_comma [of a] digits_no_comma [of b] show ?thesis by simp
  qed
qed

lemma lang_comma_item:
  "w \<in> lang (Cat (Lit CHR '','') port_range) \<longleftrightarrow> (\<exists>j. w = CHR '','' # j \<and> port_item j)"
proof
  assume "w \<in> lang (Cat (Lit CHR '','') port_range)"
  then obtain u v where "w = u @ v" "u \<in> lang (Lit CHR '','')" "v \<in> lang port_range"
    unfolding in_Cat_iff by blast
  then show "\<exists>j. w = CHR '','' # j \<and> port_item j"
    by (simp add: lang_port_range)
next
  assume "\<exists>j. w = CHR '','' # j \<and> port_item j"
  then obtain j where j: "w = CHR '','' # j" "port_item j" by blast
  have "[CHR '',''] @ j \<in> lang (Cat (Lit CHR '','') port_range)"
    using j(2) by (intro lang_Cat_I) (simp_all add: lang_port_range)
  with j(1) show "w \<in> lang (Cat (Lit CHR '','') port_range)" by simp
qed

lemma items_then_grammar:
  assumes "t \<in> star (lang (Cat (Lit CHR '','') port_range))" and "port_item i"
  shows "list_all port_item (Split (i @ t) (CHR '',''))"
  using assms
proof (induction arbitrary: i rule: star.induct)
  case star_nil
  then show ?case by (simp add: Split_no_sep port_item_no_comma)
next
  case (star_app u v)
  from star_app.hyps(1) obtain j where j: "u = CHR '','' # j" "port_item j"
    unfolding lang_comma_item by blast
  have "Split (i @ u @ v) (CHR '','') = i # Split (j @ v) (CHR '','')"
    using Split_append_sep [of "CHR '',''" i "j @ v"] j(1) port_item_no_comma [OF star_app.prems]
    by simp
  with star_app.IH [OF j(2)] star_app.prems show ?case by simp
qed

lemma grammar_then_items:
  assumes "Split s (CHR '','') = ps" and "list_all port_item ps"
  shows "s \<in> lang portRegex"
  using assms
proof (induction ps arbitrary: s)
  case Nil
  then show ?case by (simp add: Split_not_Nil)
next
  case (Cons p qs)
  note d = Split_Cons_decomp [OF Cons.prems(1)]
  from Cons.prems(2) have p: "p \<in> lang port_range" by (simp add: lang_port_range)
  show ?case
  proof (cases qs)
    case Nil
    with d have "s = p @ []" by simp
    moreover have "[] \<in> lang (Star (Cat (Lit CHR '','') port_range))" by (simp add: star_nil)
    ultimately show ?thesis
      unfolding portRegex_def using p lang_Cat_I by metis
  next
    case (Cons q rs)
    with d obtain t where t: "s = p @ CHR '','' # t" "Split t (CHR '','') = qs" by auto
    from Cons.prems(2) have "list_all port_item qs" by simp
    from Cons.IH [OF t(2) this] have "t \<in> lang portRegex" .
    then obtain j r where jr: "t = j @ r" "j \<in> lang port_range"
        "r \<in> star (lang (Cat (Lit CHR '','') port_range))"
      unfolding portRegex_def in_Cat_iff by auto
    have "CHR '','' # j \<in> lang (Cat (Lit CHR '','') port_range)"
      using jr(2) unfolding lang_comma_item by (simp add: lang_port_range)
    then have "(CHR '','' # j) @ r \<in> star (lang (Cat (Lit CHR '','') port_range))"
      using jr(3) by (rule star_app)
    then have "CHR '','' # t \<in> lang (Star (Cat (Lit CHR '','') port_range))"
      using jr(1) by simp
    with p t(1) show ?thesis
      unfolding portRegex_def using lang_Cat_I by metis
  qed
qed

lemma portRegex_grammar: "MatchString portRegex s \<longleftrightarrow> port_spec_grammar s"
proof
  assume "MatchString portRegex s"
  then have "s \<in> lang portRegex" by (simp add: MatchString_lang)
  then obtain i t where "s = i @ t" "port_item i" "t \<in> star (lang (Cat (Lit CHR '','') port_range))"
    unfolding portRegex_def in_Cat_iff by (auto simp: lang_port_range)
  then show "port_spec_grammar s"
    unfolding port_spec_grammar_def using items_then_grammar by blast
next
  assume "port_spec_grammar s"
  then have "s \<in> lang portRegex"
    unfolding port_spec_grammar_def using grammar_then_items by blast
  then show "MatchString portRegex s" by (simp add: MatchString_lang)
qed

subsection \<open>strconv.Atoi and strconv.Itoa\<close>

text \<open>
  \<open>strconv.Atoi(s)\<close>: an optional sign \<open>+\<close> or \<open>-\<close> followed by one or more ASCII
  digits, read in base 10 (no underscores, no spaces); a syntax error otherwise, and a
  range error when the value does not fit Go's 64-bit \<open>int\<close>.
\<close>

datatype NumError = ErrSyntax | ErrRange

definition digit_value :: "char \<Rightarrow> int" where
  "digit_value c = int (length (takeWhile (\<lambda>d. d \<noteq> c) ''0123456789''))"

fun decimal :: "string \<Rightarrow> int \<Rightarrow> int" where
  "decimal [] n = n"
| "decimal (c # s) n = decimal s (n * 10 + digit_value c)"

definition Atoi :: "string \<Rightarrow> NumError + int" where
  "Atoi s =
     (let neg = (case s of c # r \<Rightarrow> c = CHR ''-'' | [] \<Rightarrow> False);
          ds = (case s of c # r \<Rightarrow> if c = CHR ''-'' \<or> c = CHR ''+'' then r else s | [] \<Rightarrow> [])
      in if ds = [] \<or> \<not> list_all is_digit ds then Inl ErrSyntax
         else (let n = decimal ds 0; v = (if neg then - n else n)
               in if v < - 9223372036854775808 \<or> 9223372036854775807 < v then Inl ErrRange else Inr v))"

text \<open>\<open>strconv.Itoa(i)\<close>: the decimal digits of \<open>i\<close>, after a \<open>-\<close> when it is negative.\<close>

definition digit_char :: "nat \<Rightarrow> char" where
  "digit_char d = ''0123456789'' ! d"

function nat_digits :: "nat \<Rightarrow> string" where
  "nat_digits n = (if n < 10 then [digit_char n] else nat_digits (n div 10) @ [digit_char (n mod 10)])"
  by pat_completeness auto
termination
  by (relation "measure id") auto

declare nat_digits.simps [simp del]

definition Itoa :: "int \<Rightarrow> string" where
  "Itoa i = (if i < 0 then CHR ''-'' # nat_digits (nat (- i)) else nat_digits (nat i))"

section \<open>Data model\<close>

text \<open>
  Field \<open>F\<close> of the Go struct \<open>S\<close> is the record field \<open>S_F\<close> (several structs share
  field names).  The time stamps (\<open>CreatedAt\<close>, \<open>StartTime\<close>, \<open>EndTime\<close>, \<open>Duration\<close>)
  read the wall clock and are left out.  \<open>uuid.New()\<close> draws from a supply of fresh
  identifiers, modelled by a counter: the \<open>n\<close>-th draw is \<open>UUID n\<close>, and the zero value of
  a \<open>uuid.UUID\<close> field is \<open>Nil\<close>.
\<close>

datatype UUID = Nil | UUID nat

text \<open>\<open>scanner.ScanConfig\<close>\<close>

record ScanConfig =
  ScanConfig_Ports :: string
  ScanConfig_Timing :: string
  ScanConfig_Arguments :: string
  ScanConfig_Output :: string
  ScanConfig_Timeout :: int
  ScanConfig_Threads :: int
  ScanConfig_Options :: "string \<rightharpoonup> string"

text \<open>\<open>models.Host\<close> and \<open>models.Port\<close>\<close>

record Host =
  Host_ID :: UUID
  Host_ScanID :: UUID
  Host_IPAddress :: string
  Host_Hostname :: string
  Host_Status :: string
  Host_OS :: string
  Host_OSConfidence :: int

record Port =
  Port_ID :: UUID
  Port_HostID :: UUID
  Port_Number :: int
  Port_Protocol :: string
  Port_State :: string
  Port_Service :: string
  Port_Version :: string
  Port_Product :: string
  Port_ExtraInfo :: string

text \<open>\<open>scanner.ScanResult\<close>\<close>

record ScanResult =
  ScanResult_Target :: string
  ScanResult_Scanner :: string
  ScanResult_Status :: string
  ScanResult_Hosts :: "Host list"
  ScanResult_RawOutput :: string
  ScanResult_Error :: string

text \<open>
  The \<open>scanner.Scanner\<close> interface has two implementations, \<open>nmap.Scanner\<close> and
  \<open>masscan.Scanner\<close>, each a struct holding the path of its executable.
\<close>

datatype Scanner = NmapScanner string | MasscanScanner string

fun path :: "Scanner \<Rightarrow> string" where
  "path (NmapScanner p) = p"
| "path (MasscanScanner p) = p"

fun GetName :: "Scanner \<Rightarrow> string" where
  "GetName (NmapScanner p) = ''nmap''"
| "GetName (MasscanScanner p) = ''masscan''"

section \<open>ValidateConfig\<close>

text \<open>The test \<open>err != nil || timing < 0 || timing > 5\<close> on the result of \<open>strconv.Atoi\<close>.\<close>

definition timing_rejected :: "string \<Rightarrow> bool" where
  "timing_rejected t = (case Atoi t of Inl err \<Rightarrow> True | Inr timing \<Rightarrow> timing < 0 \<or> timing > 5)"

definition nmap_ValidateConfig :: "ScanConfig \<Rightarrow> error option" where
  "nmap_ValidateConfig config =
     (if ScanConfig_Ports config \<noteq> '''' \<and> \<not> MatchString portRegex (ScanConfig_Ports config)
      then Some (''invalid port format: '' @ ScanConfig_Ports config)
      else if ScanConfig_Timing config \<noteq> '''' \<and> timing_rejected (ScanConfig_Timing config)
      then Some (''invalid timing template: '' @ ScanConfig_Timing config @ '' (must be 0-5)'')
      else None)"

definition masscan_ValidateConfig :: "ScanConfig \<Rightarrow> error option" where
  "masscan_ValidateConfig config =
     (if ScanConfig_Ports config = '''' then Some ''ports must be specified for masscan''
      else if \<not> MatchString portRegex (ScanConfig_Ports config)
      then Some (''invalid port format: '' @ ScanConfig_Ports config)
      else if ScanConfig_Threads config > 0 \<and> ScanConfig_Threads config > 100000
      then Some (''thread count too high: '' @ Itoa (ScanConfig_Threads config) @ '' (max 100000)'')
      else None)"

fun ValidateConfig :: "Scanner \<Rightarrow> ScanConfig \<Rightarrow> error option" where
  "ValidateConfig (NmapScanner p) config = nmap_ValidateConfig config"
| "ValidateConfig (MasscanScanner p) config = masscan_ValidateConfig config"

text \<open>The zero value \<open>scanner.ScanConfig{}\<close>.\<close>

definition ScanConfig_zero :: ScanConfig where
  "ScanConfig_zero = \<lparr>ScanConfig_Ports = '''', ScanConfig_Timing = '''', ScanConfig_Arguments = '''',
     ScanConfig_Output = '''', ScanConfig_Timeout = 0, ScanConfig_Threads = 0, ScanConfig_Options = Map.empty\<rparr>"

lemma empty_not_grammar: "\<not> port_spec_grammar ''''"
  by (simp add: port_spec_grammar_def port_item_def digits_def)

lemma port_check_nmap:
  "nmap_ValidateConfig c =
     (if ScanConfig_Ports c \<noteq> '''' \<and> \<not> port_spec_grammar (ScanConfig_Ports c)
      then Some (''invalid port format: '' @ ScanConfig_Ports c)
      else if ScanConfig_Timing c \<noteq> '''' \<and> timing_rejected (ScanConfig_Timing c)
      then Some (''invalid timing template: '' @ ScanConfig_Timing c @ '' (must be 0-5)'')
      else None)"
  by (simp add: nmap_ValidateConfig_def portRegex_grammar)

lemma port_check_masscan:
  "masscan_ValidateConfig c =
     (if ScanConfig_Ports c = '''' then Some ''ports must be specified for masscan''
      else if \<not> port_spec_grammar (ScanConfig_Ports c)
      then Some (''invalid port format: '' @ ScanConfig_Ports c)
      else if ScanConfig_Threads c > 100000
      then Some (''thread count too high: '' @ Itoa (ScanConfig_Threads c) @ '' (max 100000)'')
      else None)"
  by (simp add: masscan_ValidateConfig_def portRegex_grammar)

subsection \<open>Properties of ValidateConfig\<close>

lemmas grammar_eval = port_spec_grammar_def port_item_def digits_def is_digit_def

lemmas Atoi_eval = timing_rejected_def Atoi_def is_digit_def digit_value_def

lemma timing_rejected_iff:
  "timing_rejected t \<longleftrightarrow> \<not> (\<exists>n. Atoi t = Inr n \<and> 0 \<le> n \<and> n \<le> 5)"
  by (cases "Atoi t") (auto simp: timing_rejected_def)

text \<open>
  C6.  A port specification that matches the grammar passes the port check of both
  adapters (what ValidateConfig returns is then decided by the timing, respectively the
  thread count, alone); a non-empty one that violates the grammar, such as \<open>"abc"\<close>,
  \<open>"80-"\<close> or \<open>",80"\<close>, is rejected by both with the error "invalid port format";
  an empty one is rejected by the high-speed adapter and passes the port check of the
  thorough-probe adapter.
\<close>

theorem ValidateConfig_port_grammar:
  "(port_spec_grammar (ScanConfig_Ports c) \<longrightarrow>
      nmap_ValidateConfig c =
        (if ScanConfig_Timing c \<noteq> '''' \<and> timing_rejected (ScanConfig_Timing c)
         then Some (''invalid timing template: '' @ ScanConfig_Timing c @ '' (must be 0-5)'')
         else None) \<and>
      masscan_ValidateConfig c =
        (if ScanConfig_Threads c > 100000
         then Some (''thread count too high: '' @ Itoa (ScanConfig_Threads c) @ '' (max 100000)'')
         else None)) \<and>
   (ScanConfig_Ports c \<noteq> '''' \<and> \<not> port_spec_grammar (ScanConfig_Ports c) \<longrightarrow>
      nmap_ValidateConfig c = Some (''invalid port format: '' @ ScanConfig_Ports c) \<and>
      masscan_ValidateConfig c = Some (''invalid port format: '' @ ScanConfig_Ports c)) \<and>
   (ScanConfig_Ports c = '''' \<longrightarrow>
      masscan_ValidateConfig c = Some ''ports must be specified for masscan'' \<and>
      nmap_ValidateConfig c =
        (if ScanConfig_Timing c \<noteq> '''' \<and> timing_rejected (ScanConfig_Timing c)
         then Some (''invalid timing template: '' @ ScanConfig_Timing c @ '' (must be 0-5)'')
         else None)) \<and>
   \<not> port_spec_grammar ''abc'' \<and> \<not> port_spec_grammar ''80-'' \<and> \<not> port_spec_grammar '',80''"
proof -
  have bad: "\<not> port_spec_grammar ''abc''" "\<not> port_spec_grammar ''80-''"
      "\<not> port_spec_grammar '',80''"
    by (simp_all add: grammar_eval)
  have nonempty: "port_spec_grammar (ScanConfig_Ports c) \<Longrightarrow> ScanConfig_Ports c \<noteq> ''''"
    using empty_not_grammar by auto
  show ?thesis
    using bad nonempty by (simp add: port_check_nmap port_check_masscan)
qed

theorem ValidateConfig_port_grammar_witness:
  "port_spec_grammar ''22,80,8000-8100'' \<and>
   nmap_ValidateConfig (ScanConfig_zero\<lparr>ScanConfig_Ports := ''22,80,8000-8100''\<rparr>) = None \<and>
   masscan_ValidateConfig (ScanConfig_zero\<lparr>ScanConfig_Ports := ''22,80,8000-8100''\<rparr>) = None \<and>
   nmap_ValidateConfig (ScanConfig_zero\<lparr>ScanConfig_Ports := ''80-''\<rparr>) = Some ''invalid port format: 80-'' \<and>
   masscan_ValidateConfig (ScanConfig_zero\<lparr>ScanConfig_Ports := ''80-''\<rparr>) = Some ''invalid port format: 80-'' \<and>
   masscan_ValidateConfig ScanConfig_zero = Some ''ports must be specified for masscan'' \<and>
   nmap_ValidateConfig ScanConfig_zero = None"
proof -
  have g: "port_spec_grammar ''22,80,8000-8100''" by (simp add: grammar_eval)
  have b: "\<not> port_spec_grammar ''80-''" by (simp add: grammar_eval)
  show ?thesis
    using g b
      ValidateConfig_port_grammar [of "ScanConfig_zero\<lparr>ScanConfig_Ports := ''22,80,8000-8100''\<rparr>"]
      ValidateConfig_port_grammar [of "ScanConfig_zero\<lparr>ScanConfig_Ports := ''80-''\<rparr>"]
      ValidateConfig_port_grammar [of ScanConfig_zero]
    by (simp add: ScanConfig_zero_def)
qed

text \<open>
  C7.  Once the port specification has passed, a non-empty timing string is accepted by
  the thorough-probe adapter exactly when \<open>strconv.Atoi\<close> reads it as an integer between
  0 and 5; otherwise it is rejected with the error "invalid timing template".  A timing
  string that does not read as an integer from 0 to 5 is rejected whatever the ports are.
  In particular \<open>"0"\<close> to \<open>"5"\<close> are accepted, \<open>"-1"\<close> and \<open>"6"\<close> are rejected.
\<close>

theorem nmap_ValidateConfig_timing:
  assumes "ScanConfig_Timing c \<noteq> ''''"
  shows
  "((ScanConfig_Ports c = '''' \<or> port_spec_grammar (ScanConfig_Ports c)) \<and>
      (\<exists>n. Atoi (ScanConfig_Timing c) = Inr n \<and> 0 \<le> n \<and> n \<le> 5) \<longrightarrow>
        nmap_ValidateConfig c = None) \<and>
   ((ScanConfig_Ports c = '''' \<or> port_spec_grammar (ScanConfig_Ports c)) \<and>
      \<not> (\<exists>n. Atoi (ScanConfig_Timing c) = Inr n \<and> 0 \<le> n \<and> n \<le> 5) \<longrightarrow>
        nmap_ValidateConfig c =
          Some (''invalid timing template: '' @ ScanConfig_Timing c @ '' (must be 0-5)'')) \<and>
   (\<not> (\<exists>n. Atoi (ScanConfig_Timing c) = Inr n \<and> 0 \<le> n \<and> n \<le> 5) \<longrightarrow>
        nmap_ValidateConfig c \<noteq> None) \<and>
   ((ScanConfig_Ports c = '''' \<or> port_spec_grammar (ScanConfig_Ports c)) \<and>
      ScanConfig_Timing c \<in> set [''0'', ''1'', ''2'', ''3'', ''4'', ''5''] \<longrightarrow>
        nmap_ValidateConfig c = None) \<and>
   (ScanConfig_Timing c \<in> set [''-1'', ''6''] \<longrightarrow> nmap_ValidateConfig c \<noteq> None)"
proof -
  let ?ok = "\<exists>n. Atoi (ScanConfig_Timing c) = Inr n \<and> 0 \<le> n \<and> n \<le> 5"
  let ?ports = "ScanConfig_Ports c = [] \<or> port_spec_grammar (ScanConfig_Ports c)"
  have r: "timing_rejected (ScanConfig_Timing c) \<longleftrightarrow> \<not> ?ok"
    by (rule timing_rejected_iff)
  have ok: "\<not> timing_rejected t" if "t \<in> set [''0'', ''1'', ''2'', ''3'', ''4'', ''5'']" for t
    using that by (auto simp: Atoi_eval)
  have bad: "timing_rejected t" if "t \<in> set [''-1'', ''6'']" for t
    using that by (auto simp: Atoi_eval)
  have 1: "ScanConfig_Timing c \<in> set [''0'', ''1'', ''2'', ''3'', ''4'', ''5''] \<longrightarrow> ?ok"
    using ok [of "ScanConfig_Timing c"] r by blast
  have 2: "ScanConfig_Timing c \<in> set [''-1'', ''6''] \<longrightarrow> \<not> ?ok"
    using bad [of "ScanConfig_Timing c"] r by blast
  have 3: "nmap_ValidateConfig c = None" if "?ok" "?ports"
    using that r by (auto simp: port_check_nmap)
  have 4: "nmap_ValidateConfig c =
        Some (''invalid timing template: '' @ ScanConfig_Timing c @ '' (must be 0-5)'')"
    if "\<not> ?ok" "?ports"
    using that r assms by (auto simp: port_check_nmap)
  have 5: "nmap_ValidateConfig c \<noteq> None" if "\<not> ?ok"
    using that r assms by (simp add: port_check_nmap)
  from 1 2 3 4 5 show ?thesis by blast
qed

theorem nmap_ValidateConfig_timing_witness:
  "nmap_ValidateConfig (ScanConfig_zero\<lparr>ScanConfig_Ports := ''1-1024'', ScanConfig_Timing := ''4''\<rparr>) = None \<and>
   nmap_ValidateConfig (ScanConfig_zero\<lparr>ScanConfig_Timing := ''+3''\<rparr>) = None \<and>
   nmap_ValidateConfig (ScanConfig_zero\<lparr>ScanConfig_Timing := ''6''\<rparr>) =
     Some ''invalid timing template: 6 (must be 0-5)'' \<and>
   nmap_ValidateConfig (ScanConfig_zero\<lparr>ScanConfig_Timing := ''-1''\<rparr>) =
     Some ''invalid timing template: -1 (must be 0-5)'' \<and>
   nmap_ValidateConfig (ScanConfig_zero\<lparr>ScanConfig_Timing := ''fast''\<rparr>) =
     Some ''invalid timing template: fast (must be 0-5)''"
proof -
  have g: "port_spec_grammar ''1-1024''" by (simp add: grammar_eval)
  have a: "Atoi ''4'' = Inr 4" "Atoi ''+3'' = Inr 3" "Atoi ''6'' = Inr 6" "Atoi ''-1'' = Inr (- 1)"
      "Atoi ''fast'' = Inl ErrSyntax"
    by (simp_all add: Atoi_eval)
  show ?thesis
    using g a
      nmap_ValidateConfig_timing [of "ScanConfig_zero\<lparr>ScanConfig_Ports := ''1-1024'', ScanConfig_Timing := ''4''\<rparr>"]
      nmap_ValidateConfig_timing [of "ScanConfig_zero\<lparr>ScanConfig_Timing := ''+3''\<rparr>"]
      nmap_ValidateConfig_timing [of "ScanConfig_zero\<lparr>ScanConfig_Timing := ''6''\<rparr>"]
      nmap_ValidateConfig_timing [of "ScanConfig_zero\<lparr>ScanConfig_Timing := ''-1''\<rparr>"]
      nmap_ValidateConfig_timing [of "ScanConfig_zero\<lparr>ScanConfig_Timing := ''fast''\<rparr>"]
    by (simp add: ScanConfig_zero_def)
qed

section \<open>The thorough-probe adapter (nmap)\<close>

text \<open>
  The world outside the adapters is a parameter of the model:
  \<^item> \<open>run s_path args\<close> stands for \<open>exec.CommandContext(ctx, s.path, args...).Output()\<close>: the
    captured standard output and the error (a non-zero exit, a missing executable, a
    cancelled context);
  \<^item> \<open>xml_Unmarshal\<close> and \<open>json_Unmarshal\<close> stand for the decoders of \<open>encoding/xml\<close>
    and \<open>encoding/json\<close> into \<open>NmapRun\<close> and \<open>MasscanResult\<close>;
  \<^item> \<open>u\<close> is the state of the identifier supply when the call starts.
  The receiver \<open>s\<close> of a method enters through \<open>s.path\<close> (the parameter \<open>s_path\<close>)
  and through \<open>s.GetName()\<close>, which is \<open>"nmap"\<close> for this adapter and \<open>"masscan"\<close>
  for the other.
\<close>

subsection \<open>The argument vector\<close>

definition nmap_args :: "string \<Rightarrow> ScanConfig \<Rightarrow> string list" where
  "nmap_args target config =
     (let args = [''-oX'', ''-''];
          args = (if ScanConfig_Ports config \<noteq> ''''
                  then args @ [''-p'', ScanConfig_Ports config] else args);
          args = (if ScanConfig_Timing config \<noteq> ''''
                  then args @ [''-T'' @ ScanConfig_Timing config] else args);
          args = args @ [''-sV''];
          args = args @ [''-O''];
          args = (if ScanConfig_Arguments config \<noteq> ''''
                  then args @ Fields (ScanConfig_Arguments config) else args)
      in args @ [target])"

subsection \<open>The decoded document\<close>

record NmapStatus =
  NmapStatus_State :: string

record NmapAddress =
  NmapAddress_Addr :: string
  NmapAddress_AddrType :: string

record NmapHostname =
  NmapHostname_Name :: string

record NmapHostnames =
  NmapHostnames_Hostnames :: "NmapHostname list"

record NmapState =
  NmapState_State :: string

record NmapService =
  NmapService_Name :: string
  NmapService_Product :: string
  NmapService_Version :: string
  NmapService_Info :: string

record NmapPort =
  NmapPort_Protocol :: string
  NmapPort_PortID :: int
  NmapPort_State :: NmapState
  NmapPort_Service :: NmapService

record NmapPorts =
  NmapPorts_Ports :: "NmapPort list"

record NmapOSMatch =
  NmapOSMatch_Name :: string
  NmapOSMatch_Accuracy :: int

record NmapOS =
  NmapOS_OSMatches :: "NmapOSMatch list"

record NmapHost =
  NmapHost_Status :: NmapStatus
  NmapHost_Address :: "NmapAddress list"
  NmapHost_Hostnames :: NmapHostnames
  NmapHost_Ports :: NmapPorts
  NmapHost_OS :: NmapOS

record NmapRun =
  NmapRun_Hosts :: "NmapHost list"

subsection \<open>parseNmapXML\<close>

text \<open>The loop over the addresses of a host node, left at the first \<open>"ipv4"\<close> one.\<close>

fun first_ipv4 :: "NmapAddress list \<Rightarrow> Host \<Rightarrow> Host" where
  "first_ipv4 [] host = host"
| "first_ipv4 (addr # rest) host =
     (if NmapAddress_AddrType addr = ''ipv4''
      then host\<lparr>Host_IPAddress := NmapAddress_Addr addr\<rparr>
      else first_ipv4 rest host)"

text \<open>The body of the loop over the host nodes; \<open>uid\<close> is the result of \<open>uuid.New()\<close>.\<close>

definition nmap_host :: "UUID \<Rightarrow> NmapHost \<Rightarrow> Host" where
  "nmap_host uid nmapHost =
     (let host = \<lparr>Host_ID = uid, Host_ScanID = Nil, Host_IPAddress = '''', Host_Hostname = '''',
                   Host_Status = NmapStatus_State (NmapHost_Status nmapHost),
                   Host_OS = '''', Host_OSConfidence = 0\<rparr>;
          host = first_ipv4 (NmapHost_Address nmapHost) host;
          host = (case NmapHostnames_Hostnames (NmapHost_Hostnames nmapHost) of
                    [] \<Rightarrow> host
                  | hostname # others \<Rightarrow> host\<lparr>Host_Hostname := NmapHostname_Name hostname\<rparr>);
          host = (case NmapOS_OSMatches (NmapHost_OS nmapHost) of
                    [] \<Rightarrow> host
                  | osMatch # others \<Rightarrow>
                      host\<lparr>Host_OS := NmapOSMatch_Name osMatch,
                           Host_OSConfidence := NmapOSMatch_Accuracy osMatch\<rparr>)
      in host)"

fun nmap_hosts :: "NmapHost list \<Rightarrow> nat \<Rightarrow> Host list \<Rightarrow> Host list" where
  "nmap_hosts [] u hosts = hosts"
| "nmap_hosts (nmapHost # rest) u hosts =
     nmap_hosts rest (Suc u) (hosts @ [nmap_host (UUID u) nmapHost])"

definition parseNmapXML ::
  "(string \<Rightarrow> error + NmapRun) \<Rightarrow> nat \<Rightarrow> string \<Rightarrow> Host list \<times> error option" where
  "parseNmapXML xml_Unmarshal u xmlData =
     (case xml_Unmarshal xmlData of
        Inl err \<Rightarrow> ([], Some (''failed to parse nmap XML: '' @ err))
      | Inr nmapRun \<Rightarrow> (nmap_hosts (NmapRun_Hosts nmapRun) u [], None))"

subsection \<open>Scan\<close>

text \<open>What Scan returns once the process has run without error: the branch on the
  parser's result.\<close>

definition nmap_report ::
  "string \<Rightarrow> string \<Rightarrow> Host list \<times> error option \<Rightarrow> ScanResult option \<times> error option" where
  "nmap_report target output parsed =
     (case parsed of
        (hosts, Some parseErr) \<Rightarrow>
          (Some \<lparr>ScanResult_Target = target, ScanResult_Scanner = ''nmap'',
                 ScanResult_Status = ''completed_with_errors'', ScanResult_Hosts = [],
                 ScanResult_RawOutput = output, ScanResult_Error = parseErr\<rparr>, None)
      | (hosts, None) \<Rightarrow>
          (Some \<lparr>ScanResult_Target = target, ScanResult_Scanner = ''nmap'',
                 ScanResult_Status = ''completed'', ScanResult_Hosts = hosts,
                 ScanResult_RawOutput = output, ScanResult_Error = ''''\<rparr>, None))"

definition nmap_Scan ::
  "(string \<Rightarrow> string list \<Rightarrow> string \<times> error option) \<Rightarrow> (string \<Rightarrow> error + NmapRun) \<Rightarrow> nat \<Rightarrow>
     string \<Rightarrow> string \<Rightarrow> ScanConfig \<Rightarrow> ScanResult option \<times> error option" where
  "nmap_Scan run xml_Unmarshal u s_path target config =
     (case nmap_ValidateConfig config of
        Some err \<Rightarrow> (None, Some (''invalid config: '' @ err))
      | None \<Rightarrow>
          (case run s_path (nmap_args target config) of
             (output, Some err) \<Rightarrow>
               (Some \<lparr>ScanResult_Target = target, ScanResult_Scanner = ''nmap'',
                      ScanResult_Status = ''failed'', ScanResult_Hosts = [],
                      ScanResult_RawOutput = output, ScanResult_Error = err\<rparr>, Some err)
           | (output, None) \<Rightarrow>
               nmap_report target output (parseNmapXML xml_Unmarshal u output)))"

section \<open>The high-speed adapter (masscan)\<close>

subsection \<open>The argument vector\<close>

definition masscan_args :: "string \<Rightarrow> ScanConfig \<Rightarrow> string list" where
  "masscan_args target config =
     (let args = [];
          args = args @ [target];
          args = args @ [''-p'', ScanConfig_Ports config];
          args = (if ScanConfig_Threads config > 0
                  then args @ [''--rate'', Itoa (ScanConfig_Threads config)]
                  else args @ [''--rate'', ''1000'']);
          args = args @ [''--output-format'', ''json''];
          args = (if ScanConfig_Arguments config \<noteq> ''''
                  then args @ Fields (ScanConfig_Arguments config) else args)
      in args)"

subsection \<open>The decoded record\<close>

record MasscanPort =
  MasscanPort_Port :: int
  MasscanPort_Proto :: string
  MasscanPort_Status :: string
  MasscanPort_Reason :: string
  MasscanPort_TTL :: int

record MasscanResult =
  MasscanResult_IP :: string
  MasscanResult_Timestamp :: string
  MasscanResult_Ports :: "MasscanPort list"

subsection \<open>parseMasscanJSON\<close>

text \<open>
  The variables of the loop: \<open>hostMap\<close> (a Go map, represented by the list of its
  entries, with distinct keys; the order of the list is the model's own and not the
  order of a range over the map, for which see \<open>range_order\<close> below), the identifier
  supply, and \<open>blank\<close>, the values the loop assigns to the blank identifier \<open>_\<close>:
  they are built and dropped, and no part of what the function returns.
\<close>

record fold_state =
  hostMap :: "(string \<times> Host) list"
  next_uuid :: nat
  blank :: "Port list"

text \<open>The inner loop over \<open>result.Ports\<close>: one \<open>models.Port\<close> per entry, assigned to \<open>_\<close>.\<close>

definition masscan_port :: "Host \<Rightarrow> fold_state \<Rightarrow> MasscanPort \<Rightarrow> fold_state" where
  "masscan_port host st portInfo =
     st\<lparr>blank := blank st @
           [\<lparr>Port_ID = UUID (next_uuid st), Port_HostID = Host_ID host,
             Port_Number = MasscanPort_Port portInfo, Port_Protocol = MasscanPort_Proto portInfo,
             Port_State = MasscanPort_Status portInfo, Port_Service = '''', Port_Version = '''',
             Port_Product = '''', Port_ExtraInfo = ''''\<rparr>],
        next_uuid := Suc (next_uuid st)\<rparr>"

text \<open>A decoded record: get or create the host of its IP, then run the inner loop.\<close>

definition masscan_record :: "fold_state \<Rightarrow> MasscanResult \<Rightarrow> fold_state" where
  "masscan_record st result =
     (case map_of (hostMap st) (MasscanResult_IP result) of
        Some host \<Rightarrow> foldl (masscan_port host) st (MasscanResult_Ports result)
      | None \<Rightarrow>
          (let host = \<lparr>Host_ID = UUID (next_uuid st), Host_ScanID = Nil,
                        Host_IPAddress = MasscanResult_IP result, Host_Hostname = '''',
                        Host_Status = ''up'', Host_OS = '''', Host_OSConfidence = 0\<rparr>;
               st = st\<lparr>hostMap := hostMap st @ [(MasscanResult_IP result, host)],
                        next_uuid := Suc (next_uuid st)\<rparr>
           in foldl (masscan_port host) st (MasscanResult_Ports result)))"

text \<open>The body of the loop over the lines.\<close>

definition masscan_line ::
  "(string \<Rightarrow> error + MasscanResult) \<Rightarrow> fold_state \<Rightarrow> string \<Rightarrow> fold_state" where
  "masscan_line json_Unmarshal st line =
     (if TrimSpace line = '''' then st
      else (case json_Unmarshal line of
              Inl err \<Rightarrow> st
            | Inr result \<Rightarrow> masscan_record st result))"

definition masscan_fold ::
  "(string \<Rightarrow> error + MasscanResult) \<Rightarrow> nat \<Rightarrow> string \<Rightarrow> fold_state" where
  "masscan_fold json_Unmarshal u jsonData =
     foldl (masscan_line json_Unmarshal) \<lparr>hostMap = [], next_uuid = u, blank = []\<rparr>
       (Split (TrimSpace jsonData) (CHR 0x0A))"

text \<open>
  The hosts are collected by \<open>for _, host := range hostMap\<close>, and Go leaves the order
  of a range over a map unspecified.  \<open>range_order\<close> stands for the order the runtime
  picks: applied to the entries of the map it yields them in the order of the iteration,
  some permutation of them.  It is a parameter, like the decoders; nothing is assumed of
  it here.
\<close>

definition parseMasscanJSON ::
  "(string \<Rightarrow> error + MasscanResult) \<Rightarrow> ((string \<times> Host) list \<Rightarrow> (string \<times> Host) list) \<Rightarrow>
     nat \<Rightarrow> string \<Rightarrow> Host list \<times> error option" where
  "parseMasscanJSON json_Unmarshal range_order u jsonData =
     (map snd (range_order (hostMap (masscan_fold json_Unmarshal u jsonData))), None)"

subsection \<open>Scan\<close>

definition masscan_report ::
  "string \<Rightarrow> string \<Rightarrow> Host list \<times> error option \<Rightarrow> ScanResult option \<times> error option" where
  "masscan_report target output parsed =
     (case parsed of
        (hosts, Some parseErr) \<Rightarrow>
          (Some \<lparr>ScanResult_Target = target, ScanResult_Scanner = ''masscan'',
                 ScanResult_Status = ''completed_with_errors'', ScanResult_Hosts = [],
                 ScanResult_RawOutput = output, ScanResult_Error = parseErr\<rparr>, None)
      | (hosts, None) \<Rightarrow>
          (Some \<lparr>ScanResult_Target = target, ScanResult_Scanner = ''masscan'',
                 ScanResult_Status = ''completed'', ScanResult_Hosts = hosts,
                 ScanResult_RawOutput = output, ScanResult_Error = ''''\<rparr>, None))"

definition masscan_Scan ::
  "(string \<Rightarrow> string list \<Rightarrow> string \<times> error option) \<Rightarrow> (string \<Rightarrow> error + MasscanResult) \<Rightarrow>
     ((string \<times> Host) list \<Rightarrow> (string \<times> Host) list) \<Rightarrow> nat \<Rightarrow>
     string \<Rightarrow> string \<Rightarrow> ScanConfig \<Rightarrow> ScanResult option \<times> error option" where
  "masscan_Scan run json_Unmarshal range_order u s_path target config =
     (case masscan_ValidateConfig config of
        Some err \<Rightarrow> (None, Some (''invalid config: '' @ err))
      | None \<Rightarrow>
          (case run s_path (masscan_args target config) of
             (output, Some err) \<Rightarrow>
               (Some \<lparr>ScanResult_Target = target, ScanResult_Scanner = ''masscan'',
                      ScanResult_Status = ''failed'', ScanResult_Hosts = [],
                      ScanResult_RawOutput = output, ScanResult_Error = err\<rparr>, Some err)
           | (output, None) \<Rightarrow>
               masscan_report target output (parseMasscanJSON json_Unmarshal range_order u output)))"

section \<open>The scanner registry\<close>

text \<open>\<open>ScannerManager\<close>: a map from names to scanners, empty when made by
  \<open>NewScannerManager\<close>.\<close>

record ScannerManager =
  scanners :: "string \<rightharpoonup> Scanner"

definition NewScannerManager :: ScannerManager where
  "NewScannerManager = \<lparr>scanners = Map.empty\<rparr>"

definition RegisterScanner :: "ScannerManager \<Rightarrow> Scanner \<Rightarrow> ScannerManager" where
  "RegisterScanner sm scanner = sm\<lparr>scanners := (scanners sm)(GetName scanner \<mapsto> scanner)\<rparr>"

text \<open>\<open>GetScanner\<close> returns the scanner (\<open>nil\<close>, here \<open>None\<close>, when there is none) and
  whether the name is registered.\<close>

definition GetScanner :: "ScannerManager \<Rightarrow> string \<Rightarrow> Scanner option \<times> bool" where
  "GetScanner sm name =
     (case scanners sm name of
        None \<Rightarrow> (None, False)
      | Some scanner \<Rightarrow> (Some scanner, True))"

section \<open>Properties of the adapters\<close>

subsection \<open>Argument vectors\<close>

lemma Fields_empty: "Fields '''' = []"
  by (simp add: Fields_def)

text \<open>
  C4.  The argument vector of the thorough-probe adapter is \<open>-oX -\<close>, then \<open>-p ports\<close>
  if ports are set, then \<open>-T\<close> with the timing appended if a timing is set, then
  \<open>-sV -O\<close>, then the fields of the user's extra arguments, then the target.  The
  vector of the high-speed adapter is the target, \<open>-p ports\<close>, \<open>--rate\<close> with the thread
  count (1000 when the count is not positive), \<open>--output-format json\<close>, then the fields
  of the user's extra arguments.  In both, every built-in option stands before the
  user's arguments.
\<close>

theorem argument_vector_templates:
  "nmap_args target c =
     [''-oX'', ''-''] @
     (if ScanConfig_Ports c = '''' then [] else [''-p'', ScanConfig_Ports c]) @
     (if ScanConfig_Timing c = '''' then [] else [''-T'' @ ScanConfig_Timing c]) @
     [''-sV'', ''-O''] @ Fields (ScanConfig_Arguments c) @ [target] \<and>
   masscan_args target c =
     [target, ''-p'', ScanConfig_Ports c, ''--rate'',
      if 0 < ScanConfig_Threads c then Itoa (ScanConfig_Threads c) else ''1000'',
      ''--output-format'', ''json''] @ Fields (ScanConfig_Arguments c)"
proof
  show "nmap_args target c =
     [''-oX'', ''-''] @
     (if ScanConfig_Ports c = '''' then [] else [''-p'', ScanConfig_Ports c]) @
     (if ScanConfig_Timing c = '''' then [] else [''-T'' @ ScanConfig_Timing c]) @
     [''-sV'', ''-O''] @ Fields (ScanConfig_Arguments c) @ [target]"
    by (cases "ScanConfig_Arguments c = ''''") (simp_all add: nmap_args_def Fields_empty Let_def)
next
  show "masscan_args target c =
     [target, ''-p'', ScanConfig_Ports c, ''--rate'',
      if 0 < ScanConfig_Threads c then Itoa (ScanConfig_Threads c) else ''1000'',
      ''--output-format'', ''json''] @ Fields (ScanConfig_Arguments c)"
    by (cases "ScanConfig_Arguments c = ''''") (simp_all add: masscan_args_def Fields_empty Let_def)
qed

lemma Fields_sample: "Fields ''--open  -Pn'' = [''--open'', ''-Pn'']"
  by code_simp

lemma Itoa_sample: "Itoa 5000 = ''5000''"
  by (simp add: Itoa_def nat_digits.simps digit_char_def)

theorem argument_vector_templates_witness:
  "nmap_args ''10.0.0.0/24''
     (ScanConfig_zero\<lparr>ScanConfig_Ports := ''22,80'', ScanConfig_Timing := ''4'',
        ScanConfig_Arguments := ''--open  -Pn''\<rparr>) =
     [''-oX'', ''-'', ''-p'', ''22,80'', ''-T4'', ''-sV'', ''-O'', ''--open'', ''-Pn'', ''10.0.0.0/24''] \<and>
   nmap_args ''10.0.0.7'' ScanConfig_zero = [''-oX'', ''-'', ''-sV'', ''-O'', ''10.0.0.7''] \<and>
   masscan_args ''10.0.0.0/24''
     (ScanConfig_zero\<lparr>ScanConfig_Ports := ''22,80'', ScanConfig_Threads := 5000,
        ScanConfig_Arguments := ''--open  -Pn''\<rparr>) =
     [''10.0.0.0/24'', ''-p'', ''22,80'', ''--rate'', ''5000'', ''--output-format'', ''json'',
      ''--open'', ''-Pn''] \<and>
   masscan_args ''10.0.0.0/24'' (ScanConfig_zero\<lparr>ScanConfig_Ports := ''22,80''\<rparr>) =
     [''10.0.0.0/24'', ''-p'', ''22,80'', ''--rate'', ''1000'', ''--output-format'', ''json'']"
  using
    argument_vector_templates [of "''10.0.0.0/24''"
      "ScanConfig_zero\<lparr>ScanConfig_Ports := ''22,80'', ScanConfig_Timing := ''4'',
         ScanConfig_Arguments := ''--open  -Pn''\<rparr>"]
    argument_vector_templates [of "''10.0.0.7''" ScanConfig_zero]
    argument_vector_templates [of "''10.0.0.0/24''"
      "ScanConfig_zero\<lparr>ScanConfig_Ports := ''22,80'', ScanConfig_Threads := 5000,
         ScanConfig_Arguments := ''--open  -Pn''\<rparr>"]
    argument_vector_templates [of "''10.0.0.0/24''" "ScanConfig_zero\<lparr>ScanConfig_Ports := ''22,80''\<rparr>"]
  by (simp add: ScanConfig_zero_def Fields_sample Fields_empty Itoa_sample)

subsection \<open>Scan: the three outcomes after validation\<close>

lemma nmap_Scan_cases:
  "nmap_Scan run xml_Unmarshal u p t c =
     (case nmap_ValidateConfig c of
        Some err \<Rightarrow> (None, Some (''invalid config: '' @ err))
      | None \<Rightarrow>
          (case snd (run p (nmap_args t c)) of
             Some err \<Rightarrow>
               (Some \<lparr>ScanResult_Target = t, ScanResult_Scanner = ''nmap'',
                      ScanResult_Status = ''failed'', ScanResult_Hosts = [],
                      ScanResult_RawOutput = fst (run p (nmap_args t c)),
                      ScanResult_Error = err\<rparr>, Some err)
           | None \<Rightarrow>
               nmap_report t (fst (run p (nmap_args t c)))
                 (parseNmapXML xml_Unmarshal u (fst (run p (nmap_args t c))))))"
  by (simp add: nmap_Scan_def split: option.splits prod.splits)

lemma masscan_Scan_cases:
  "masscan_Scan run json_Unmarshal range_order u p t c =
     (case masscan_ValidateConfig c of
        Some err \<Rightarrow> (None, Some (''invalid config: '' @ err))
      | None \<Rightarrow>
          (case snd (run p (masscan_args t c)) of
             Some err \<Rightarrow>
               (Some \<lparr>ScanResult_Target = t, ScanResult_Scanner = ''masscan'',
                      ScanResult_Status = ''failed'', ScanResult_Hosts = [],
                      ScanResult_RawOutput = fst (run p (masscan_args t c)),
                      ScanResult_Error = err\<rparr>, Some err)
           | None \<Rightarrow>
               masscan_report t (fst (run p (masscan_args t c)))
                 (parseMasscanJSON json_Unmarshal range_order u (fst (run p (masscan_args t c))))))"
  by (simp add: masscan_Scan_def split: option.splits prod.splits)

lemma report_no_error:
  "snd (nmap_report t out parsed) = None" "snd (masscan_report t out parsed) = None"
  "fst (nmap_report t out parsed) \<noteq> None" "fst (masscan_report t out parsed) \<noteq> None"
  by (simp_all add: nmap_report_def masscan_report_def split: prod.splits option.splits)

text \<open>
  C3.  When the configuration is valid and running the process fails with error \<open>e\<close>
  after writing \<open>out\<close>, Scan of either adapter returns a result with status "failed", no
  hosts, the raw output \<open>out\<close> and the error field \<open>e\<close>, together with the error \<open>e\<close>
  itself.  For either adapter this is the only case in which Scan returns both a result
  and an error.
\<close>

theorem Scan_process_failure:
  "(nmap_ValidateConfig c = None \<and> run p (nmap_args t c) = (out, Some e) \<longrightarrow>
      nmap_Scan run xml_Unmarshal u p t c =
        (Some \<lparr>ScanResult_Target = t, ScanResult_Scanner = ''nmap'',
               ScanResult_Status = ''failed'', ScanResult_Hosts = [],
               ScanResult_RawOutput = out, ScanResult_Error = e\<rparr>, Some e)) \<and>
   (masscan_ValidateConfig c = None \<and> run p (masscan_args t c) = (out, Some e) \<longrightarrow>
      masscan_Scan run json_Unmarshal range_order u p t c =
        (Some \<lparr>ScanResult_Target = t, ScanResult_Scanner = ''masscan'',
               ScanResult_Status = ''failed'', ScanResult_Hosts = [],
               ScanResult_RawOutput = out, ScanResult_Error = e\<rparr>, Some e)) \<and>
   ((fst (nmap_Scan run xml_Unmarshal u p t c) \<noteq> None \<and>
     snd (nmap_Scan run xml_Unmarshal u p t c) \<noteq> None) =
    (nmap_ValidateConfig c = None \<and> snd (run p (nmap_args t c)) \<noteq> None)) \<and>
   ((fst (masscan_Scan run json_Unmarshal range_order u p t c) \<noteq> None \<and>
     snd (masscan_Scan run json_Unmarshal range_order u p t c) \<noteq> None) =
    (masscan_ValidateConfig c = None \<and> snd (run p (masscan_args t c)) \<noteq> None))"
proof -
  have 1: "nmap_Scan run xml_Unmarshal u p t c =
        (Some \<lparr>ScanResult_Target = t, ScanResult_Scanner = ''nmap'',
               ScanResult_Status = ''failed'', ScanResult_Hosts = [],
               ScanResult_RawOutput = out, ScanResult_Error = e\<rparr>, Some e)"
    if "nmap_ValidateConfig c = None" "run p (nmap_args t c) = (out, Some e)"
    using that by (simp add: nmap_Scan_cases)
  have 2: "masscan_Scan run json_Unmarshal range_order u p t c =
        (Some \<lparr>ScanResult_Target = t, ScanResult_Scanner = ''masscan'',
               ScanResult_Status = ''failed'', ScanResult_Hosts = [],
               ScanResult_RawOutput = out, ScanResult_Error = e\<rparr>, Some e)"
    if "masscan_ValidateConfig c = None" "run p (masscan_args t c) = (out, Some e)"
    using that by (simp add: masscan_Scan_cases)
  have 3: "(fst (nmap_Scan run xml_Unmarshal u p t c) \<noteq> None \<and>
     snd (nmap_Scan run xml_Unmarshal u p t c) \<noteq> None) =
    (nmap_ValidateConfig c = None \<and> snd (run p (nmap_args t c)) \<noteq> None)"
    by (simp add: nmap_Scan_cases report_no_error split: option.splits)
  have 4: "(fst (masscan_Scan run json_Unmarshal range_order u p t c) \<noteq> None \<and>
     snd (masscan_Scan run json_Unmarshal range_order u p t c) \<noteq> None) =
    (masscan_ValidateConfig c = None \<and> snd (run p (masscan_args t c)) \<noteq> None)"
    by (simp add: masscan_Scan_cases report_no_error split: option.splits)
  from 1 2 3 4 show ?thesis by blast
qed

lemma sample_configs_valid:
  "nmap_ValidateConfig ScanConfig_zero = None"
  "masscan_ValidateConfig (ScanConfig_zero\<lparr>ScanConfig_Ports := ''80,443''\<rparr>) = None"
  by (simp_all add: port_check_nmap port_check_masscan ScanConfig_zero_def grammar_eval)

theorem Scan_process_failure_witness:
  "nmap_Scan (\<lambda>p args. (''Starting Nmap'', Some ''exit status 1'')) (\<lambda>d. Inl ''EOF'') 0
      ''/usr/bin/nmap'' ''10.0.0.1'' ScanConfig_zero =
     (Some \<lparr>ScanResult_Target = ''10.0.0.1'', ScanResult_Scanner = ''nmap'',
            ScanResult_Status = ''failed'', ScanResult_Hosts = [],
            ScanResult_RawOutput = ''Starting Nmap'', ScanResult_Error = ''exit status 1''\<rparr>,
      Some ''exit status 1'') \<and>
   masscan_Scan (\<lambda>p args. ([], Some ''context deadline exceeded'')) (\<lambda>d. Inl ''EOF'') (\<lambda>m. m) 0
      ''/usr/bin/masscan'' ''10.0.0.1'' (ScanConfig_zero\<lparr>ScanConfig_Ports := ''80,443''\<rparr>) =
     (Some \<lparr>ScanResult_Target = ''10.0.0.1'', ScanResult_Scanner = ''masscan'',
            ScanResult_Status = ''failed'', ScanResult_Hosts = [],
            ScanResult_RawOutput = [], ScanResult_Error = ''context deadline exceeded''\<rparr>,
      Some ''context deadline exceeded'')"
  using
    Scan_process_failure [of ScanConfig_zero "\<lambda>p args. (''Starting Nmap'', Some ''exit status 1'')"
      "''/usr/bin/nmap''" "''10.0.0.1''" "''Starting Nmap''" "''exit status 1''" "\<lambda>d. Inl ''EOF''" 0]
    Scan_process_failure [of "ScanConfig_zero\<lparr>ScanConfig_Ports := ''80,443''\<rparr>"
      "\<lambda>p args. ([], Some ''context deadline exceeded'')"
      "''/usr/bin/masscan''" "''10.0.0.1''" "[]" "''context deadline exceeded''" _ _ "\<lambda>d. Inl ''EOF''" "\<lambda>m. m"]
    sample_configs_valid
  by simp

subsection \<open>The registry\<close>

lemma scanners_foldl_Register:
  "scanners (foldl RegisterScanner sm scs) name =
     (case find (\<lambda>s. GetName s = name) (rev scs) of
        None \<Rightarrow> scanners sm name
      | Some s \<Rightarrow> Some s)"
proof (induction scs rule: rev_induct)
  case Nil
  show ?case by simp
next
  case (snoc x xs)
  then show ?case by (simp add: RegisterScanner_def)
qed

text \<open>
  C9.  After any sequence of registrations on a new manager, looking a name up returns
  the scanner registered last under that name, with found = true, and returns no
  scanner, with found = false, when none was registered under it.  In particular a
  second registration under a name replaces the first.
\<close>

theorem registry_last_write_wins:
  "GetScanner (foldl RegisterScanner NewScannerManager scs) name =
     (case find (\<lambda>s. GetName s = name) (rev scs) of
        None \<Rightarrow> (None, False)
      | Some s \<Rightarrow> (Some s, True)) \<and>
   (GetName a = GetName b \<longrightarrow>
      GetScanner (RegisterScanner (RegisterScanner sm a) b) (GetName a) = (Some b, True))"
proof
  show "GetScanner (foldl RegisterScanner NewScannerManager scs) name =
     (case find (\<lambda>s. GetName s = name) (rev scs) of
        None \<Rightarrow> (None, False)
      | Some s \<Rightarrow> (Some s, True))"
    by (simp add: GetScanner_def scanners_foldl_Register NewScannerManager_def
        split: option.splits)
next
  show "GetName a = GetName b \<longrightarrow>
      GetScanner (RegisterScanner (RegisterScanner sm a) b) (GetName a) = (Some b, True)"
    by (simp add: GetScanner_def RegisterScanner_def)
qed

theorem registry_last_write_wins_witness:
  "GetName (NmapScanner ''/usr/bin/nmap'') = GetName (NmapScanner ''/opt/nmap/bin/nmap'') \<and>
   GetScanner (RegisterScanner (RegisterScanner NewScannerManager (NmapScanner ''/usr/bin/nmap''))
      (NmapScanner ''/opt/nmap/bin/nmap'')) ''nmap'' = (Some (NmapScanner ''/opt/nmap/bin/nmap''), True) \<and>
   GetScanner (foldl RegisterScanner NewScannerManager
      [NmapScanner ''/usr/bin/nmap'', MasscanScanner ''/usr/bin/masscan'',
       NmapScanner ''/opt/nmap/bin/nmap'']) ''nmap'' = (Some (NmapScanner ''/opt/nmap/bin/nmap''), True) \<and>
   GetScanner (foldl RegisterScanner NewScannerManager
      [NmapScanner ''/usr/bin/nmap'', NmapScanner ''/opt/nmap/bin/nmap'']) ''masscan'' = (None, False)"
  using
    registry_last_write_wins [of "[]" "[]" "NmapScanner ''/usr/bin/nmap''"
      "NmapScanner ''/opt/nmap/bin/nmap''" NewScannerManager]
    registry_last_write_wins [of "[NmapScanner ''/usr/bin/nmap'', MasscanScanner ''/usr/bin/masscan'',
       NmapScanner ''/opt/nmap/bin/nmap'']" "''nmap''" "NmapScanner ''/usr/bin/nmap''"
       "NmapScanner ''/usr/bin/nmap''" NewScannerManager]
    registry_last_write_wins [of "[NmapScanner ''/usr/bin/nmap'', NmapScanner ''/opt/nmap/bin/nmap'']"
       "''masscan''" "NmapScanner ''/usr/bin/nmap''" "NmapScanner ''/usr/bin/nmap''" NewScannerManager]
  by simp

subsection \<open>parseNmapXML\<close>

lemma first_ipv4_find:
  "first_ipv4 addrs host =
     (case find (\<lambda>a. NmapAddress_AddrType a = ''ipv4'') addrs of
        None \<Rightarrow> host
      | Some a \<Rightarrow> host\<lparr>Host_IPAddress := NmapAddress_Addr a\<rparr>)"
  by (induction addrs) simp_all

text \<open>The host built from a host node, field by field.\<close>

definition host_of_node :: "UUID \<Rightarrow> NmapHost \<Rightarrow> Host" where
  "host_of_node uid nh =
     \<lparr>Host_ID = uid, Host_ScanID = Nil,
      Host_IPAddress =
        (case find (\<lambda>a. NmapAddress_AddrType a = ''ipv4'') (NmapHost_Address nh) of
           None \<Rightarrow> '''' | Some a \<Rightarrow> NmapAddress_Addr a),
      Host_Hostname =
        (case NmapHostnames_Hostnames (NmapHost_Hostnames nh) of
           [] \<Rightarrow> '''' | hn # others \<Rightarrow> NmapHostname_Name hn),
      Host_Status = NmapStatus_State (NmapHost_Status nh),
      Host_OS =
        (case NmapOS_OSMatches (NmapHost_OS nh) of
           [] \<Rightarrow> '''' | m # others \<Rightarrow> NmapOSMatch_Name m),
      Host_OSConfidence =
        (case NmapOS_OSMatches (NmapHost_OS nh) of
           [] \<Rightarrow> 0 | m # others \<Rightarrow> NmapOSMatch_Accuracy m)\<rparr>"

lemma nmap_host_fields: "nmap_host uid nh = host_of_node uid nh"
  by (simp add: nmap_host_def host_of_node_def first_ipv4_find Let_def
      split: option.splits list.splits)

lemma nmap_hosts_map:
  "nmap_hosts nhs u hosts = hosts @ map (\<lambda>(i, nh). host_of_node (UUID i) nh) (enumerate u nhs)"
  by (induction nhs arbitrary: u hosts) (simp_all add: nmap_host_fields)

text \<open>
  C5.  When the document decodes to \<open>nmapRun\<close>, parseNmapXML returns no error and one
  Host per host node, in order, each with a fresh identifier, the state of the node as
  its status, the first address of type "ipv4" (none: empty), the first hostname (none:
  empty) and the name and accuracy of the first OS match (none: empty and 0).  For the
  one host node with state "up", address 10.0.0.5 of type ipv4, hostname router.local and
  OS match "Linux 3.2 - 4.9" at accuracy 95, whatever ports the node lists, the result is
  exactly one Host with these fields; a Host has no field for ports.
\<close>

theorem parseNmapXML_hosts:
  assumes "xml_Unmarshal xmlData = Inr nmapRun"
  shows
  "parseNmapXML xml_Unmarshal u xmlData =
     (map (\<lambda>(i, nh). host_of_node (UUID i) nh) (enumerate u (NmapRun_Hosts nmapRun)), None) \<and>
   (NmapRun_Hosts nmapRun =
      [\<lparr>NmapHost_Status = \<lparr>NmapStatus_State = ''up''\<rparr>,
        NmapHost_Address = [\<lparr>NmapAddress_Addr = ''10.0.0.5'', NmapAddress_AddrType = ''ipv4''\<rparr>],
        NmapHost_Hostnames = \<lparr>NmapHostnames_Hostnames = [\<lparr>NmapHostname_Name = ''router.local''\<rparr>]\<rparr>,
        NmapHost_Ports = ports,
        NmapHost_OS = \<lparr>NmapOS_OSMatches =
          [\<lparr>NmapOSMatch_Name = ''Linux 3.2 - 4.9'', NmapOSMatch_Accuracy = 95\<rparr>]\<rparr>\<rparr>] \<longrightarrow>
    parseNmapXML xml_Unmarshal u xmlData =
      ([\<lparr>Host_ID = UUID u, Host_ScanID = Nil, Host_IPAddress = ''10.0.0.5'',
         Host_Hostname = ''router.local'', Host_Status = ''up'', Host_OS = ''Linux 3.2 - 4.9'',
         Host_OSConfidence = 95\<rparr>], None))"
  using assms by (simp add: parseNmapXML_def nmap_hosts_map host_of_node_def)

definition sample_ports :: NmapPorts where
  "sample_ports = \<lparr>NmapPorts_Ports =
     [\<lparr>NmapPort_Protocol = ''tcp'', NmapPort_PortID = 22,
       NmapPort_State = \<lparr>NmapState_State = ''open''\<rparr>,
       NmapPort_Service = \<lparr>NmapService_Name = ''ssh'', NmapService_Product = ''OpenSSH'',
         NmapService_Version = ''8.9'', NmapService_Info = ''protocol 2.0''\<rparr>\<rparr>]\<rparr>"

definition sample_run :: NmapRun where
  "sample_run = \<lparr>NmapRun_Hosts =
     [\<lparr>NmapHost_Status = \<lparr>NmapStatus_State = ''up''\<rparr>,
       NmapHost_Address = [\<lparr>NmapAddress_Addr = ''10.0.0.5'', NmapAddress_AddrType = ''ipv4''\<rparr>],
       NmapHost_Hostnames = \<lparr>NmapHostnames_Hostnames = [\<lparr>NmapHostname_Name = ''router.local''\<rparr>]\<rparr>,
       NmapHost_Ports = sample_ports,
       NmapHost_OS = \<lparr>NmapOS_OSMatches =
         [\<lparr>NmapOSMatch_Name = ''Linux 3.2 - 4.9'', NmapOSMatch_Accuracy = 95\<rparr>]\<rparr>\<rparr>]\<rparr>"

theorem parseNmapXML_hosts_witness:
  "parseNmapXML (\<lambda>d. Inr sample_run) 7 ''<nmaprun>...</nmaprun>'' =
      ([\<lparr>Host_ID = UUID 7, Host_ScanID = Nil, Host_IPAddress = ''10.0.0.5'',
         Host_Hostname = ''router.local'', Host_Status = ''up'', Host_OS = ''Linux 3.2 - 4.9'',
         Host_OSConfidence = 95\<rparr>], None)"
  using parseNmapXML_hosts [of "\<lambda>d. Inr sample_run" "''<nmaprun>...</nmaprun>''" sample_run 7 sample_ports]
  by (simp add: sample_run_def host_of_node_def)

subsection \<open>parseMasscanJSON: the fold over the lines\<close>

text \<open>The records of the lines that are not blank and decode, in the order of the lines.\<close>

definition decoded :: "(string \<Rightarrow> error + MasscanResult) \<Rightarrow> string list \<Rightarrow> MasscanResult list" where
  "decoded json_Unmarshal lines =
     concat (map (\<lambda>line. if TrimSpace line = '''' then []
                         else (case json_Unmarshal line of Inl err \<Rightarrow> [] | Inr result \<Rightarrow> [result]))
                 lines)"

text \<open>The lines of the input, as the parser splits them.\<close>

definition masscan_lines :: "string \<Rightarrow> string list" where
  "masscan_lines jsonData = Split (TrimSpace jsonData) (CHR 0x0A)"

text \<open>The Host a record creates for its IP, and the Port built for a port entry.\<close>

definition new_host :: "UUID \<Rightarrow> string \<Rightarrow> Host" where
  "new_host uid ip =
     \<lparr>Host_ID = uid, Host_ScanID = Nil, Host_IPAddress = ip, Host_Hostname = '''',
      Host_Status = ''up'', Host_OS = '''', Host_OSConfidence = 0\<rparr>"

definition new_port :: "UUID \<Rightarrow> UUID \<Rightarrow> MasscanPort \<Rightarrow> Port" where
  "new_port uid hostID portInfo =
     \<lparr>Port_ID = uid, Port_HostID = hostID,
      Port_Number = MasscanPort_Port portInfo, Port_Protocol = MasscanPort_Proto portInfo,
      Port_State = MasscanPort_Status portInfo, Port_Service = '''', Port_Version = '''',
      Port_Product = '''', Port_ExtraInfo = ''''\<rparr>"

lemma foldl_lines_decoded:
  "foldl (masscan_line json_Unmarshal) st lines = foldl masscan_record st (decoded json_Unmarshal lines)"
proof (induction lines arbitrary: st)
  case Nil
  show ?case by (simp add: decoded_def)
next
  case (Cons line lines)
  have step: "foldl masscan_record st (decoded json_Unmarshal (line # lines)) =
      foldl masscan_record (masscan_line json_Unmarshal st line) (decoded json_Unmarshal lines)"
    by (simp add: decoded_def masscan_line_def split: sum.splits)
  show ?case
    unfolding step using Cons.IH by simp
qed

lemma masscan_fold_decoded:
  "masscan_fold json_Unmarshal u jsonData =
     foldl masscan_record \<lparr>hostMap = [], next_uuid = u, blank = []\<rparr>
       (decoded json_Unmarshal (masscan_lines jsonData))"
  by (simp add: masscan_fold_def masscan_lines_def foldl_lines_decoded)

lemma masscan_port_new_port:
  "masscan_port host st p =
     st\<lparr>blank := blank st @ [new_port (UUID (next_uuid st)) (Host_ID host) p],
        next_uuid := Suc (next_uuid st)\<rparr>"
  by (simp add: masscan_port_def new_port_def)

lemma ports_loop:
  "foldl (masscan_port host) st ps =
     st\<lparr>blank := blank st @
           map (\<lambda>(i, p). new_port (UUID i) (Host_ID host) p) (enumerate (next_uuid st) ps),
        next_uuid := next_uuid st + length ps\<rparr>"
proof (induction ps arbitrary: st)
  case Nil
  show ?case by simp
next
  case (Cons p ps)
  show ?case
    unfolding foldl_Cons Cons.IH
    by (simp add: masscan_port_new_port)
qed

lemma hostMap_record:
  "hostMap (masscan_record st r) =
     (if MasscanResult_IP r \<in> fst ` set (hostMap st) then hostMap st
      else hostMap st @ [(MasscanResult_IP r, new_host (UUID (next_uuid st)) (MasscanResult_IP r))])"
proof (cases "map_of (hostMap st) (MasscanResult_IP r)")
  case None
  then have "MasscanResult_IP r \<notin> fst ` set (hostMap st)"
    by (simp add: map_of_eq_None_iff)
  with None show ?thesis
    by (simp add: masscan_record_def ports_loop new_host_def Let_def)
next
  case (Some h)
  then have "MasscanResult_IP r \<in> fst ` set (hostMap st)"
    by (metis map_of_eq_None_iff option.distinct(1))
  with Some show ?thesis
    by (simp add: masscan_record_def ports_loop)
qed

text \<open>
  C8.  For every input the parser returns no error, and what it returns is the fold
  over the records of the lines that are neither blank nor undecodable: a line that is
  blank or fails to decode leaves the state of the loop as it is, wherever it stands.
\<close>

theorem parseMasscanJSON_skips_lines:
  "parseMasscanJSON json_Unmarshal range_order u jsonData =
     (map snd (range_order (hostMap (foldl masscan_record \<lparr>hostMap = [], next_uuid = u, blank = []\<rparr>
        (decoded json_Unmarshal (masscan_lines jsonData))))), None) \<and>
   (TrimSpace line = '''' \<or> (\<exists>err. json_Unmarshal line = Inl err) \<longrightarrow>
      masscan_line json_Unmarshal st line = st \<and>
      foldl (masscan_line json_Unmarshal) st (before @ [line] @ after) =
        foldl (masscan_line json_Unmarshal) st (before @ after))"
proof -
  have skip: "masscan_line json_Unmarshal st' line = st'"
    if "TrimSpace line = '''' \<or> (\<exists>err. json_Unmarshal line = Inl err)" for st'
    using that by (auto simp: masscan_line_def)
  then show ?thesis
    by (simp add: parseMasscanJSON_def masscan_fold_decoded)
qed

subsection \<open>An example output\<close>

text \<open>
  Two records for 10.0.0.1, one with port 80/tcp open and one with port 443/tcp open, a
  record for 10.0.0.1 without port entries, and a decoder for the examples: it decodes
  these three lines as \<open>json.Unmarshal\<close> does and fails on the other lines used here.
\<close>

definition sample_line_80 :: string where
  \<open>sample_line_80 =
     ''{"ip":"10.0.0.1","ports":[{"port":80,"proto":"tcp","status":"open"}]}''\<close>

definition sample_line_443 :: string where
  \<open>sample_line_443 =
     ''{"ip":"10.0.0.1","ports":[{"port":443,"proto":"tcp","status":"open"}]}''\<close>

definition sample_line_bare :: string where
  \<open>sample_line_bare = ''{"ip":"10.0.0.1","ports":[]}''\<close>

definition sample_port_80 :: MasscanPort where
  "sample_port_80 = \<lparr>MasscanPort_Port = 80, MasscanPort_Proto = ''tcp'', MasscanPort_Status = ''open'',
     MasscanPort_Reason = [], MasscanPort_TTL = 0\<rparr>"

definition sample_port_443 :: MasscanPort where
  "sample_port_443 = \<lparr>MasscanPort_Port = 443, MasscanPort_Proto = ''tcp'', MasscanPort_Status = ''open'',
     MasscanPort_Reason = [], MasscanPort_TTL = 0\<rparr>"

definition sample_Unmarshal :: "string \<Rightarrow> error + MasscanResult" where
  "sample_Unmarshal line =
     (if line = sample_line_80
      then Inr \<lparr>MasscanResult_IP = ''10.0.0.1'', MasscanResult_Timestamp = [],
                MasscanResult_Ports = [sample_port_80]\<rparr>
      else if line = sample_line_443
      then Inr \<lparr>MasscanResult_IP = ''10.0.0.1'', MasscanResult_Timestamp = [],
                MasscanResult_Ports = [sample_port_443]\<rparr>
      else if line = sample_line_bare
      then Inr \<lparr>MasscanResult_IP = ''10.0.0.1'', MasscanResult_Timestamp = [],
                MasscanResult_Ports = []\<rparr>
      else Inl ''invalid character'')"

text \<open>The two records with a blank line between them, then the same with a line of
  diagnostics, then twice the record without port entries.\<close>

definition sample_output :: string where
  "sample_output = sample_line_80 @ [CHR 0x0A] @ ''  '' @ [CHR 0x0A] @ sample_line_443 @ [CHR 0x0A]"

definition sample_noisy_output :: string where
  "sample_noisy_output =
     sample_line_80 @ [CHR 0x0A] @ ''rate:  0.10-kpps'' @ [CHR 0x0A] @ [CHR 0x0A] @ sample_line_443"

definition sample_bare_output :: string where
  "sample_bare_output =
     sample_line_bare @ [CHR 0x0A] @ ''  '' @ [CHR 0x0A] @ sample_line_bare @ [CHR 0x0A]"

lemma sample_lines:
  "masscan_lines sample_output = [sample_line_80, ''  '', sample_line_443]"
  "masscan_lines sample_noisy_output = [sample_line_80, ''rate:  0.10-kpps'', [], sample_line_443]"
  "masscan_lines sample_bare_output = [sample_line_bare, ''  '', sample_line_bare]"
  by code_simp+

lemma sample_blank:
  "TrimSpace ''  '' = []" "TrimSpace [] = []"
  "TrimSpace sample_line_80 \<noteq> []" "TrimSpace sample_line_443 \<noteq> []"
  "TrimSpace sample_line_bare \<noteq> []"
  "TrimSpace ''rate:  0.10-kpps'' \<noteq> []"
  by code_simp+

lemma sample_decode:
  "sample_Unmarshal sample_line_80 =
     Inr \<lparr>MasscanResult_IP = ''10.0.0.1'', MasscanResult_Timestamp = [],
          MasscanResult_Ports = [sample_port_80]\<rparr>"
  "sample_Unmarshal sample_line_443 =
     Inr \<lparr>MasscanResult_IP = ''10.0.0.1'', MasscanResult_Timestamp = [],
          MasscanResult_Ports = [sample_port_443]\<rparr>"
  "sample_Unmarshal sample_line_bare =
     Inr \<lparr>MasscanResult_IP = ''10.0.0.1'', MasscanResult_Timestamp = [],
          MasscanResult_Ports = []\<rparr>"
  "sample_Unmarshal ''rate:  0.10-kpps'' = Inl ''invalid character''"
  by code_simp+

lemma sample_records:
  "decoded sample_Unmarshal (masscan_lines sample_output) =
     [\<lparr>MasscanResult_IP = ''10.0.0.1'', MasscanResult_Timestamp = [],
        MasscanResult_Ports = [sample_port_80]\<rparr>,
      \<lparr>MasscanResult_IP = ''10.0.0.1'', MasscanResult_Timestamp = [],
        MasscanResult_Ports = [sample_port_443]\<rparr>]"
  "decoded sample_Unmarshal (masscan_lines sample_noisy_output) =
     [\<lparr>MasscanResult_IP = ''10.0.0.1'', MasscanResult_Timestamp = [],
        MasscanResult_Ports = [sample_port_80]\<rparr>,
      \<lparr>MasscanResult_IP = ''10.0.0.1'', MasscanResult_Timestamp = [],
        MasscanResult_Ports = [sample_port_443]\<rparr>]"
  "decoded sample_Unmarshal (masscan_lines sample_bare_output) =
     [\<lparr>MasscanResult_IP = ''10.0.0.1'', MasscanResult_Timestamp = [], MasscanResult_Ports = []\<rparr>,
      \<lparr>MasscanResult_IP = ''10.0.0.1'', MasscanResult_Timestamp = [], MasscanResult_Ports = []\<rparr>]"
  by (simp_all add: decoded_def sample_lines sample_blank sample_decode)

lemma sample_fold:
  "masscan_record
     (masscan_record \<lparr>hostMap = [], next_uuid = 0, blank = []\<rparr>
        \<lparr>MasscanResult_IP = ''10.0.0.1'', MasscanResult_Timestamp = [],
          MasscanResult_Ports = [sample_port_80]\<rparr>)
     \<lparr>MasscanResult_IP = ''10.0.0.1'', MasscanResult_Timestamp = [],
       MasscanResult_Ports = [sample_port_443]\<rparr> =
   \<lparr>hostMap = [(''10.0.0.1'', new_host (UUID 0) ''10.0.0.1'')], next_uuid = 3,
     blank = [new_port (UUID 1) (UUID 0) sample_port_80, new_port (UUID 2) (UUID 0) sample_port_443]\<rparr>"
  "masscan_record
     (masscan_record \<lparr>hostMap = [], next_uuid = 0, blank = []\<rparr>
        \<lparr>MasscanResult_IP = ''10.0.0.1'', MasscanResult_Timestamp = [], MasscanResult_Ports = []\<rparr>)
     \<lparr>MasscanResult_IP = ''10.0.0.1'', MasscanResult_Timestamp = [], MasscanResult_Ports = []\<rparr> =
   \<lparr>hostMap = [(''10.0.0.1'', new_host (UUID 0) ''10.0.0.1'')], next_uuid = 1, blank = []\<rparr>"
  by (simp_all add: masscan_record_def masscan_port_new_port new_host_def Let_def
      numeral_2_eq_2 numeral_3_eq_3)

theorem parseMasscanJSON_skips_lines_witness:
  "TrimSpace [] = [] \<and>
   sample_Unmarshal ''rate:  0.10-kpps'' = Inl ''invalid character'' \<and>
   parseMasscanJSON sample_Unmarshal (\<lambda>m. m) 0 sample_noisy_output =
     ([new_host (UUID 0) ''10.0.0.1''], None) \<and>
   foldl (masscan_line sample_Unmarshal) \<lparr>hostMap = [], next_uuid = 0, blank = []\<rparr>
      ([sample_line_80] @ [''rate:  0.10-kpps''] @ [[], sample_line_443]) =
     foldl (masscan_line sample_Unmarshal) \<lparr>hostMap = [], next_uuid = 0, blank = []\<rparr>
      ([sample_line_80] @ [[], sample_line_443])"
  using
    parseMasscanJSON_skips_lines [of sample_Unmarshal "\<lambda>m. m" 0 sample_noisy_output "''rate:  0.10-kpps''"
      "\<lparr>hostMap = [], next_uuid = 0, blank = []\<rparr>" "[sample_line_80]" "[[], sample_line_443]"]
    sample_blank(2) sample_decode(4)
  by (simp add: sample_records sample_fold)

text \<open>
  C10.  The parser of the high-speed adapter returns no error, whatever its input.  So
  when the configuration is valid and the process has run without error, Scan returns the
  result with status "completed", the parsed hosts, the raw output and an empty error
  field, and no error; and no result of Scan has the status "completed_with_errors".
\<close>

theorem masscan_Scan_always_completed:
  "snd (parseMasscanJSON json_Unmarshal range_order u jsonData) = None \<and>
   (masscan_ValidateConfig c = None \<and> snd (run p (masscan_args t c)) = None \<longrightarrow>
      masscan_Scan run json_Unmarshal range_order u p t c =
        (Some \<lparr>ScanResult_Target = t, ScanResult_Scanner = ''masscan'',
               ScanResult_Status = ''completed'',
               ScanResult_Hosts = fst (parseMasscanJSON json_Unmarshal range_order u (fst (run p (masscan_args t c)))),
               ScanResult_RawOutput = fst (run p (masscan_args t c)),
               ScanResult_Error = ''''\<rparr>, None)) \<and>
   (\<forall>r. fst (masscan_Scan run json_Unmarshal range_order u p t c) = Some r \<longrightarrow>
      ScanResult_Status r = ''failed'' \<or> ScanResult_Status r = ''completed'')"
proof -
  have ok: "parseMasscanJSON json_Unmarshal range_order u' d = (fst (parseMasscanJSON json_Unmarshal range_order u' d), None)"
    for u' d
    by (simp add: parseMasscanJSON_def)
  have 1: "snd (parseMasscanJSON json_Unmarshal range_order u jsonData) = None"
    by (simp add: parseMasscanJSON_def)
  have 2: "masscan_Scan run json_Unmarshal range_order u p t c =
        (Some \<lparr>ScanResult_Target = t, ScanResult_Scanner = ''masscan'',
               ScanResult_Status = ''completed'',
               ScanResult_Hosts = fst (parseMasscanJSON json_Unmarshal range_order u (fst (run p (masscan_args t c)))),
               ScanResult_RawOutput = fst (run p (masscan_args t c)),
               ScanResult_Error = ''''\<rparr>, None)"
    if "masscan_ValidateConfig c = None" "snd (run p (masscan_args t c)) = None"
    using that
    by (subst masscan_Scan_cases, subst ok) (simp add: masscan_report_def)
  have 3: "ScanResult_Status r = ''failed'' \<or> ScanResult_Status r = ''completed''"
    if "fst (masscan_Scan run json_Unmarshal range_order u p t c) = Some r" for r
  proof (cases "masscan_ValidateConfig c")
    case (Some e)
    with that show ?thesis by (simp add: masscan_Scan_cases)
  next
    case None
    show ?thesis
    proof (cases "snd (run p (masscan_args t c))")
      case (Some e)
      with None that show ?thesis by (auto simp: masscan_Scan_cases)
    next
      case None': None
      from that show ?thesis
        unfolding 2 [OF None None'] by auto
    qed
  qed
  from 1 2 3 show ?thesis by blast
qed

theorem masscan_Scan_always_completed_witness:
  "masscan_Scan (\<lambda>p args. (''rate:  0.10-kpps'', None)) sample_Unmarshal (\<lambda>m. m) 0
      ''/usr/bin/masscan'' ''10.0.0.0/24'' (ScanConfig_zero\<lparr>ScanConfig_Ports := ''80,443''\<rparr>) =
     (Some \<lparr>ScanResult_Target = ''10.0.0.0/24'', ScanResult_Scanner = ''masscan'',
            ScanResult_Status = ''completed'', ScanResult_Hosts = [],
            ScanResult_RawOutput = ''rate:  0.10-kpps'', ScanResult_Error = ''''\<rparr>, None)"
proof -
  have "masscan_lines ''rate:  0.10-kpps'' = [''rate:  0.10-kpps'']"
    by code_simp
  then have "parseMasscanJSON sample_Unmarshal (\<lambda>m. m) 0 ''rate:  0.10-kpps'' = ([], None)"
    by (simp add: parseMasscanJSON_def masscan_fold_decoded decoded_def sample_decode)
  then show ?thesis
    using sample_configs_valid(2)
      masscan_Scan_always_completed [of sample_Unmarshal "\<lambda>m. m" 0 "[]"
        "ScanConfig_zero\<lparr>ScanConfig_Ports := ''80,443''\<rparr>"
        "\<lambda>p args. (''rate:  0.10-kpps'', None)" "''/usr/bin/masscan''" "''10.0.0.0/24''"]
    by simp
qed

text \<open>
  C1.  On the code the claim fails.  Take the two records of 10.0.0.1 with ports 80/tcp
  and 443/tcp and a blank line between them, and any order of iteration over the map.
  The parser returns the one Host of 10.0.0.1 with status "up" and no error, the blank
  line contributing nothing; but it returns no Port: what it returns is what it returns
  for the same records without any port entry.  The loop did build the two Ports, each
  owned (\<open>HostID\<close>) by that Host, and assigned them to the blank identifier.
\<close>

theorem parseMasscanJSON_drops_ports:
  assumes "\<forall>m. mset (range_order m) = mset m"
  shows
  "parseMasscanJSON sample_Unmarshal range_order 0 sample_output =
     ([\<lparr>Host_ID = UUID 0, Host_ScanID = Nil, Host_IPAddress = ''10.0.0.1'', Host_Hostname = [],
        Host_Status = ''up'', Host_OS = [], Host_OSConfidence = 0\<rparr>], None) \<and>
   parseMasscanJSON sample_Unmarshal range_order 0 sample_output =
     parseMasscanJSON sample_Unmarshal range_order 0 sample_bare_output \<and>
   map MasscanResult_Ports (decoded sample_Unmarshal (masscan_lines sample_output)) =
     [[sample_port_80], [sample_port_443]] \<and>
   map MasscanResult_Ports (decoded sample_Unmarshal (masscan_lines sample_bare_output)) = [[], []] \<and>
   blank (masscan_fold sample_Unmarshal 0 sample_output) =
     [new_port (UUID 1) (UUID 0) sample_port_80, new_port (UUID 2) (UUID 0) sample_port_443]"
proof -
  have one: "range_order [x] = [x]" for x
  proof -
    from assms have "mset (range_order [x]) = mset [x]" by blast
    then show ?thesis by simp
  qed
  show ?thesis
    by (simp add: parseMasscanJSON_def masscan_fold_decoded sample_records sample_fold
        new_host_def one)
qed

theorem parseMasscanJSON_drops_ports_witness:
  "(\<forall>m :: (string \<times> Host) list. mset (rev m) = mset m) \<and>
   parseMasscanJSON sample_Unmarshal rev 0 sample_output =
     ([\<lparr>Host_ID = UUID 0, Host_ScanID = Nil, Host_IPAddress = ''10.0.0.1'', Host_Hostname = [],
        Host_Status = ''up'', Host_OS = [], Host_OSConfidence = 0\<rparr>], None) \<and>
   parseMasscanJSON sample_Unmarshal rev 0 sample_bare_output =
     ([\<lparr>Host_ID = UUID 0, Host_ScanID = Nil, Host_IPAddress = ''10.0.0.1'', Host_Hostname = [],
        Host_Status = ''up'', Host_OS = [], Host_OSConfidence = 0\<rparr>], None)"
proof -
  have perm: "\<forall>m :: (string \<times> Host) list. mset (rev m) = mset m" by simp
  note th = parseMasscanJSON_drops_ports [OF perm]
  from th have a: "parseMasscanJSON sample_Unmarshal rev 0 sample_output =
     ([\<lparr>Host_ID = UUID 0, Host_ScanID = Nil, Host_IPAddress = ''10.0.0.1'', Host_Hostname = [],
        Host_Status = ''up'', Host_OS = [], Host_OSConfidence = 0\<rparr>], None)"
    by (rule conjunct1)
  from th have b: "parseMasscanJSON sample_Unmarshal rev 0 sample_output =
     parseMasscanJSON sample_Unmarshal rev 0 sample_bare_output"
    by (rule conjunct1 [OF conjunct2])
  from perm a b [symmetric, THEN trans, OF a] show ?thesis by (intro conjI)
qed

subsection \<open>Scan after a successful run\<close>





end
